theory Spec2Isabelle
  imports Complex_Main "HOL-Library.Word"
begin

unbundle bit_operations_syntax

section \<open>Conventions of the embedding\<close>

text \<open>
  The development embeds two modules of the desktop pet: \<^verbatim>\<open>cursor.py\<close> (pointer
  backends, the Wayland hybrid fusion filter, backend selection) and \<^verbatim>\<open>pet.py\<close>
  (the behaviour state machine), together with the tick driver of \<^verbatim>\<open>app.py\<close>.

  \<^item> Python \<^verbatim>\<open>float\<close> values are idealised as \<^typ>\<open>real\<close>; \<^verbatim>\<open>math.hypot\<close> is the
    Euclidean norm. Python \<^verbatim>\<open>int\<close> values are \<^typ>\<open>int\<close>.
  \<^item> A leading underscore of an attribute name is dropped (\<^verbatim>\<open>_seal_active\<close> is
    \<open>seal_active\<close>). The position attributes \<^verbatim>\<open>x\<close>, \<^verbatim>\<open>y\<close> of \<^verbatim>\<open>Pet\<close> are
    \<open>pet_x\<close>, \<open>pet_y\<close>, and \<^verbatim>\<open>_x\<close>, \<^verbatim>\<open>_y\<close> of the hybrid tracker are
    \<open>hyb_x\<close>, \<open>hyb_y\<close>.
  \<^item> Every \<^verbatim>\<open>raise\<close> is a value \<open>Inl e\<close> of a sum type; \<^verbatim>\<open>try/except Exception\<close>
    is a case distinction on it.
  \<^item> What the operating system, the compositor or a C library answers is a field of
    the record \<open>world\<close> (selection time) or an argument of the query function.
\<close>

section \<open>Exceptions\<close>

text \<open>
  The exceptions that the modelled code raises or receives. All of them are subclasses
  of Python's \<^verbatim>\<open>Exception\<close>, which is what every handler of the module catches.
\<close>

datatype os_error =
    FileNotFoundError
  | ConnectionRefusedError
  | TimeoutError
  | PermissionError
  | OtherOSError

datatype exn =
    RuntimeError string
  | KeyError string
  | ValueError string
  | UnicodeDecodeError
  | AttributeError string
  | ImportError string
  | OSError os_error

text \<open>
  What the socket exchange of the Hyprland backend can raise: an \<^verbatim>\<open>OSError\<close> of the
  socket calls, or the decoding error of \<^verbatim>\<open>bytes.decode\<close>.
\<close>

datatype ipc_error =
    SocketError os_error
  | DecodeError

section \<open>Strings\<close>

text \<open>
  The substring test \<^verbatim>\<open>d in desktop\<close>, and the upper case of ASCII text.
  \<^verbatim>\<open>str.upper\<close> itself follows the Unicode tables of the interpreter (it takes
  U+017F to \<open>S\<close> and U+0131 to \<open>I\<close>, and some letters to several); it is a field of the
  world below, and \<open>upper\<close> is what it computes on a text of ASCII characters only.
\<close>

definition upper_char :: "char \<Rightarrow> char" where
  "upper_char c =
     (case map_of (zip ''abcdefghijklmnopqrstuvwxyz'' ''ABCDEFGHIJKLMNOPQRSTUVWXYZ'') c of
        None \<Rightarrow> c
      | Some u \<Rightarrow> u)"

definition upper :: "string \<Rightarrow> string" where
  "upper s = map upper_char s"

fun starts_with :: "string \<Rightarrow> string \<Rightarrow> bool" where
  "starts_with [] s = True"
| "starts_with (d # ds) [] = False"
| "starts_with (d # ds) (c # cs) = (d = c \<and> starts_with ds cs)"

fun str_contains :: "string \<Rightarrow> string \<Rightarrow> bool" where
  "str_contains d [] = (d = [])"
| "str_contains d (c # cs) = (starts_with d (c # cs) \<or> str_contains d cs)"

text \<open>\<^verbatim>\<open>resp.split(",")\<close>: the pieces between the separators, at least one piece.\<close>

fun split_on :: "char \<Rightarrow> string \<Rightarrow> string list" where
  "split_on sep [] = [[]]"
| "split_on sep (c # cs) =
     (if c = sep then [] # split_on sep cs
      else (case split_on sep cs of
              [] \<Rightarrow> [[c]]
            | p # ps \<Rightarrow> (c # p) # ps))"

section \<open>The world at selection time\<close>

text \<open>
  Everything \<^verbatim>\<open>create_cursor_tracker\<close> and the constructors read from outside the
  program.

  \<^item> \<open>platform\<close> is \<^verbatim>\<open>sys.platform\<close>, \<open>environ\<close> is \<^verbatim>\<open>os.environ\<close>,
    \<open>path_exists\<close> is \<^verbatim>\<open>os.path.exists\<close>.
  \<^item> \<open>str_upper\<close> is \<^verbatim>\<open>str.upper\<close>, the case mapping of the interpreter; nothing
    is assumed of it.
  \<^item> \<open>ipc_cursorpos p\<close> is the exchange of \<^verbatim>\<open>_HyprlandCursor._get_pos\<close> with the
    socket at path \<open>p\<close>: connect, send \<^verbatim>\<open>cursorpos\<close>, receive, decode and strip; it
    is the stripped answer or the error raised on the way.
  \<^item> \<open>py_float s\<close> is \<^verbatim>\<open>float(s.strip())\<close>, \<open>None\<close> where it raises \<^verbatim>\<open>ValueError\<close>.
  \<^item> \<open>windll\<close> tells whether \<^verbatim>\<open>ctypes.windll.user32\<close> exists.
  \<^item> \<open>gnome_gi\<close> is the outcome of the \<^verbatim>\<open>gi.repository\<close> attempt of
    \<^verbatim>\<open>_GnomeCursor.__init__\<close> (import, bus connection, smoke-test query) and
    \<open>gnome_subprocess\<close> the outcome of the \<^verbatim>\<open>gdbus\<close> smoke test; \<open>None\<close> is success.
  \<^item> \<open>kde_init\<close> is the outcome of \<^verbatim>\<open>_KDECursor.__init__\<close>.
  \<^item> \<open>mice_readable\<close> is \<^verbatim>\<open>os.access("/dev/input/mice", os.R_OK)\<close>, \<open>mice_open\<close> the
    outcome of \<^verbatim>\<open>os.open\<close> on it, \<open>libx11_found\<close> the truth value of
    \<^verbatim>\<open>ctypes.util.find_library("X11")\<close>, \<open>libx11_load\<close> the outcome of
    \<^verbatim>\<open>LoadLibrary\<close>, \<open>x_display\<close> the truth value of \<^verbatim>\<open>XOpenDisplay(None)\<close>.
  \<^item> \<open>x_display_width\<close>, \<open>x_display_height\<close> are \<^verbatim>\<open>XDisplayWidth\<close>,
    \<^verbatim>\<open>XDisplayHeight\<close>; \<open>x_pointer\<close> is the root position that the seeding
    \<^verbatim>\<open>XQueryPointer\<close> call writes.
\<close>

record world =
  platform :: string
  environ :: "string \<rightharpoonup> string"
  str_upper :: "string \<Rightarrow> string"
  path_exists :: "string \<Rightarrow> bool"
  ipc_cursorpos :: "string \<Rightarrow> ipc_error + string"
  py_float :: "string \<Rightarrow> real option"
  windll :: bool
  gnome_gi :: "exn option"
  gnome_subprocess :: "exn option"
  kde_init :: "exn option"
  mice_readable :: bool
  mice_open :: "os_error option"
  libx11_found :: bool
  libx11_load :: "os_error option"
  x_display :: bool
  x_display_width :: int
  x_display_height :: int
  x_pointer :: "int \<times> int"

section \<open>Hyprland backend\<close>

record hyprland_cursor =
  socket_path :: string

text \<open>\<^verbatim>\<open>_HyprlandCursor._get_pos\<close> for a given socket path.\<close>

definition get_pos :: "world \<Rightarrow> string \<Rightarrow> exn + (real \<times> real)" where
  "get_pos w path =
     (case ipc_cursorpos w path of
        Inl (SocketError e) \<Rightarrow> Inl (OSError e)
      | Inl DecodeError \<Rightarrow> Inl UnicodeDecodeError
      | Inr resp \<Rightarrow>
          (let parts = split_on CHR '','' resp
           in if length parts \<noteq> 2 then Inl (ValueError (''Unexpected cursorpos response: '' @ resp))
              else (case py_float w (parts ! 0) of
                      None \<Rightarrow> Inl (ValueError (parts ! 0))
                    | Some a \<Rightarrow>
                        (case py_float w (parts ! 1) of
                           None \<Rightarrow> Inl (ValueError (parts ! 1))
                         | Some b \<Rightarrow> Inr (a, b)))))"

definition hyprland_candidates :: "string \<Rightarrow> string \<Rightarrow> string list" where
  "hyprland_candidates runtime sig =
     [runtime @ ''/hypr/'' @ sig @ ''/.socket.sock'',
      ''/tmp/hypr/'' @ sig @ ''/.socket.sock'']"

text \<open>
  The loop \<^verbatim>\<open>for p in candidates: if os.path.exists(p): self._socket_path = p; break\<close>.
  The attribute is a Python value that the following guard compares with \<^verbatim>\<open>None\<close>, so
  it is a \<^typ>\<open>string option\<close> here, \<open>None\<close> being Python's \<^verbatim>\<open>None\<close>.
\<close>

fun find_socket :: "(string \<Rightarrow> bool) \<Rightarrow> string option \<Rightarrow> string list \<Rightarrow> string option" where
  "find_socket ex sp [] = sp"
| "find_socket ex sp (p # ps) = (if ex p then Some p else find_socket ex sp ps)"

text \<open>\<^verbatim>\<open>os.environ.get("XDG_RUNTIME_DIR", "/tmp")\<close>.\<close>

definition runtime_dir :: "world \<Rightarrow> string" where
  "runtime_dir w = (case environ w ''XDG_RUNTIME_DIR'' of None \<Rightarrow> ''/tmp'' | Some r \<Rightarrow> r)"

text \<open>
  \<^verbatim>\<open>_HyprlandCursor.__init__\<close>. The second component of the result records whether the
  branch \<^verbatim>\<open>raise RuntimeError("Hyprland IPC socket not found")\<close> was taken.
\<close>

definition hyprland_init_trace :: "world \<Rightarrow> (exn + hyprland_cursor) \<times> bool" where
  "hyprland_init_trace w =
     (case environ w ''HYPRLAND_INSTANCE_SIGNATURE'' of
        None \<Rightarrow> (Inl (KeyError ''HYPRLAND_INSTANCE_SIGNATURE''), False)
      | Some sig \<Rightarrow>
          (let runtime = runtime_dir w;
               candidates = hyprland_candidates runtime sig;
               sp = find_socket (path_exists w) (Some []) candidates
           in case sp of
                None \<Rightarrow> (Inl (RuntimeError ''Hyprland IPC socket not found''), True)
              | Some path \<Rightarrow>
                  (case get_pos w path of
                     Inl e \<Rightarrow> (Inl e, False)
                   | Inr r \<Rightarrow> (Inr \<lparr>socket_path = path\<rparr>, False))))"

definition hyprland_init :: "world \<Rightarrow> exn + hyprland_cursor" where
  "hyprland_init w = fst (hyprland_init_trace w)"

text \<open>\<^verbatim>\<open>_HyprlandCursor.query\<close>: the position with the button flag fixed to false.\<close>

definition hyprland_query :: "world \<Rightarrow> hyprland_cursor \<Rightarrow> real \<times> real \<times> bool" where
  "hyprland_query w h =
     (case get_pos w (socket_path h) of
        Inr (a, b) \<Rightarrow> (a, b, False)
      | Inl e \<Rightarrow> (0, 0, False))"

section \<open>GNOME, KDE, Win32, X11 and Qt backends\<close>

record gnome_cursor =
  use_gi :: bool

text \<open>
  \<^verbatim>\<open>_GnomeCursor.__init__\<close>: the \<^verbatim>\<open>gi\<close> attempt, and on any exception the
  \<^verbatim>\<open>gdbus\<close> smoke test, whose exception leaves the constructor.
\<close>

definition gnome_init :: "world \<Rightarrow> exn + gnome_cursor" where
  "gnome_init w =
     (case gnome_gi w of
        None \<Rightarrow> Inr \<lparr>use_gi = True\<rparr>
      | Some e \<Rightarrow>
          (case gnome_subprocess w of
             None \<Rightarrow> Inr \<lparr>use_gi = False\<rparr>
           | Some e' \<Rightarrow> Inl e'))"

text \<open>
  \<^verbatim>\<open>_GnomeCursor.query\<close>. Both paths obtain \<^verbatim>\<open>[x, y, mods]\<close> from the shell and test
  \<^verbatim>\<open>mods & 0x100\<close>; \<open>answer\<close> is that triple or the exception of the round trip.
\<close>

definition gnome_query :: "(exn + (real \<times> real \<times> int)) \<Rightarrow> real \<times> real \<times> bool" where
  "gnome_query answer =
     (case answer of
        Inr (a, b, mods) \<Rightarrow> (a, b, mods AND 0x100 \<noteq> 0)
      | Inl e \<Rightarrow> (0, 0, False))"

text \<open>\<^verbatim>\<open>_KDECursor.query\<close>: the last position the KWin script sent, no button state.\<close>

definition kde_query :: "real \<Rightarrow> real \<Rightarrow> real \<times> real \<times> bool" where
  "kde_query parent_x parent_y = (parent_x, parent_y, False)"

definition win32_init :: "world \<Rightarrow> exn + unit" where
  "win32_init w = (if windll w then Inr () else Inl (AttributeError ''windll''))"

text \<open>
  \<^verbatim>\<open>_Win32Cursor.query\<close>: \<open>key_state\<close> is \<^verbatim>\<open>GetAsyncKeyState\<close> as a function of the
  virtual-key code.
\<close>

definition VK_LBUTTON :: nat where
  "VK_LBUTTON = 0x01"

definition win32_query :: "int \<Rightarrow> int \<Rightarrow> (nat \<Rightarrow> int) \<Rightarrow> real \<times> real \<times> bool" where
  "win32_query pt_x pt_y key_state =
     (real_of_int pt_x, real_of_int pt_y, key_state VK_LBUTTON AND 0x8000 \<noteq> 0)"

definition x11_init :: "world \<Rightarrow> exn + unit" where
  "x11_init w =
     (if \<not> libx11_found w then Inl (RuntimeError ''libX11 not found'')
      else (case libx11_load w of
              Some e \<Rightarrow> Inl (OSError e)
            | None \<Rightarrow>
                if \<not> x_display w then Inl (RuntimeError ''Cannot open X display'')
                else Inr ()))"

text \<open>
  \<^verbatim>\<open>_X11Cursor.query\<close>: \<open>root_x\<close>, \<open>root_y\<close> and \<open>mask_value\<close> are what \<^verbatim>\<open>XQueryPointer\<close>
  wrote (\<^verbatim>\<open>self._mask.value\<close>), a C \<^verbatim>\<open>unsigned int\<close>.
\<close>

definition x11_query :: "int \<Rightarrow> int \<Rightarrow> 32 word \<Rightarrow> real \<times> real \<times> bool" where
  "x11_query root_x root_y mask_value =
     (real_of_int root_x, real_of_int root_y, mask_value AND (push_bit 8 1) \<noteq> 0)"

text \<open>
  \<^verbatim>\<open>_QtCursor.query\<close>: \<open>buttons\<close> is the flag word \<^verbatim>\<open>QApplication.mouseButtons()\<close>, in
  which Qt sets \<^verbatim>\<open>LeftButton = 1\<close>, \<^verbatim>\<open>RightButton = 2\<close>, \<^verbatim>\<open>MiddleButton = 4\<close>.
\<close>

definition NoButton :: "32 word" where
  "NoButton = 0"

definition LeftButton :: "32 word" where
  "LeftButton = 1"

definition RightButton :: "32 word" where
  "RightButton = 2"

definition MiddleButton :: "32 word" where
  "MiddleButton = 4"

definition qt_query :: "int \<Rightarrow> int \<Rightarrow> 32 word \<Rightarrow> real \<times> real \<times> bool" where
  "qt_query pos_x pos_y buttons =
     (real_of_int pos_x, real_of_int pos_y, buttons \<noteq> NoButton)"

section \<open>Wayland hybrid backend (fusion filter)\<close>

record hybrid =
  screen_w :: real
  screen_h :: real
  hyb_x :: real
  hyb_y :: real
  last_x11_x :: real
  last_x11_y :: real
  sensitivity :: real

definition hybrid_init :: "world \<Rightarrow> exn + hybrid" where
  "hybrid_init w =
     (if \<not> mice_readable w then Inl (RuntimeError ''/dev/input/mice is not readable'')
      else (case mice_open w of
              Some e \<Rightarrow> Inl (OSError e)
            | None \<Rightarrow>
                if \<not> libx11_found w then Inl (RuntimeError ''libX11 not found'')
                else (case libx11_load w of
                        Some e \<Rightarrow> Inl (OSError e)
                      | None \<Rightarrow>
                          if \<not> x_display w then Inl (RuntimeError ''Cannot open X display'')
                          else Inr \<lparr>screen_w = real_of_int (x_display_width w),
                                    screen_h = real_of_int (x_display_height w),
                                    hyb_x = real_of_int (fst (x_pointer w)),
                                    hyb_y = real_of_int (snd (x_pointer w)),
                                    last_x11_x = real_of_int (fst (x_pointer w)),
                                    last_x11_y = real_of_int (snd (x_pointer w)),
                                    sensitivity = 1\<rparr>)))"

definition hypot :: "real \<Rightarrow> real \<Rightarrow> real" where
  "hypot a b = sqrt (a * a + b * b)"

text \<open>
  \<^verbatim>\<open>_read_mice\<close>. The pending input of the non-blocking device is the list of the
  results of the successive \<^verbatim>\<open>os.read(fd, 3)\<close> calls; when it is used up the next read
  raises \<^verbatim>\<open>BlockingIOError\<close> and the loop ends. The arguments after the list are the
  loop variables \<^verbatim>\<open>total_dx\<close>, \<^verbatim>\<open>total_dy\<close>, \<^verbatim>\<open>btn\<close>.
\<close>

fun read_mice_loop :: "8 word list list \<Rightarrow> int \<Rightarrow> int \<Rightarrow> bool \<Rightarrow> int \<times> int \<times> bool" where
  "read_mice_loop [] total_dx total_dy btn = (total_dx, total_dy, btn)"
| "read_mice_loop (data # rest) total_dx total_dy btn =
     (if length data < 3 then (total_dx, total_dy, btn)
      else
        (let b = data ! 0;
             dx0 = uint (data ! 1);
             dy0 = uint (data ! 2);
             dx = (if b AND 0x10 \<noteq> 0 then dx0 - 256 else dx0);
             dy = (if b AND 0x20 \<noteq> 0 then dy0 - 256 else dy0)
         in read_mice_loop rest (total_dx + dx) (total_dy - dy) (b AND 0x01 \<noteq> 0)))"

definition read_mice :: "8 word list list \<Rightarrow> int \<times> int \<times> bool" where
  "read_mice pending = read_mice_loop pending 0 0 False"

text \<open>
  The body of \<^verbatim>\<open>_WaylandHybridCursor.query\<close> after the two reads: \<open>raw_dx\<close>, \<open>raw_dy\<close>,
  \<open>mice_btn\<close> come from \<^verbatim>\<open>_read_mice\<close>, and \<open>rx\<close>, \<open>ry\<close>, \<open>mask_value\<close> from
  \<^verbatim>\<open>XQueryPointer\<close>.
\<close>

definition fuse :: "hybrid \<Rightarrow> int \<Rightarrow> int \<Rightarrow> bool \<Rightarrow> int \<Rightarrow> int \<Rightarrow> 32 word
    \<Rightarrow> hybrid \<times> (real \<times> real \<times> bool)" where
  "fuse h raw_dx raw_dy mice_btn rx ry mask_value =
     (let x11_x = real_of_int rx;
          x11_y = real_of_int ry;
          x11_btn = (mask_value AND (push_bit 8 1) \<noteq> 0);
          x11_dx = x11_x - last_x11_x h;
          x11_dy = x11_y - last_x11_y h;
          x11_changed = (x11_dx \<noteq> 0 \<or> x11_dy \<noteq> 0);
          h' =
            (if x11_changed then
               (let h1 = h\<lparr>hyb_x := x11_x, hyb_y := x11_y,
                           last_x11_x := x11_x, last_x11_y := x11_y\<rparr>;
                    raw_mag = hypot (real_of_int raw_dx) (real_of_int raw_dy);
                    actual_mag = hypot x11_dx x11_dy
                in if raw_mag > 3 then
                     h1\<lparr>sensitivity := 0.85 * sensitivity h1 + 0.15 * (actual_mag / raw_mag)\<rparr>
                   else h1)
             else if raw_dx \<noteq> 0 \<or> raw_dy \<noteq> 0 then
               (let h1 = h\<lparr>hyb_x := hyb_x h + real_of_int raw_dx * sensitivity h,
                           hyb_y := hyb_y h + real_of_int raw_dy * sensitivity h\<rparr>
                in h1\<lparr>hyb_x := max 0 (min (screen_w h1 - 1) (hyb_x h1)),
                      hyb_y := max 0 (min (screen_h h1 - 1) (hyb_y h1))\<rparr>)
             else h)
      in (h', (hyb_x h', hyb_y h', x11_btn \<or> mice_btn)))"

definition hybrid_query :: "hybrid \<Rightarrow> 8 word list list \<Rightarrow> int \<Rightarrow> int \<Rightarrow> 32 word
    \<Rightarrow> hybrid \<times> (real \<times> real \<times> bool)" where
  "hybrid_query h pending rx ry mask_value =
     (case read_mice pending of
        (raw_dx, raw_dy, mice_btn) \<Rightarrow> fuse h raw_dx raw_dy mice_btn rx ry mask_value)"

section \<open>Backend selection\<close>

datatype tracker =
    Win32Cursor
  | HyprlandCursor hyprland_cursor
  | GnomeCursor gnome_cursor
  | KDECursor
  | WaylandHybridCursor hybrid
  | X11Cursor
  | QtCursor

text \<open>
  \<^verbatim>\<open>try: return C() except Exception: pass\<close> followed by the rest of the function:
  a successful construction is returned, an exception is dropped and the rest runs.
\<close>

definition try_return :: "(exn + 'a) \<Rightarrow> ('a \<Rightarrow> tracker) \<Rightarrow> (exn + tracker) \<Rightarrow> exn + tracker" where
  "try_return attempt wrap rest =
     (case attempt of
        Inr c \<Rightarrow> Inr (wrap c)
      | Inl e \<Rightarrow> rest)"

text \<open>Truthiness of \<^verbatim>\<open>os.environ.get(name)\<close>: set and not empty.\<close>

definition env_truthy :: "world \<Rightarrow> string \<Rightarrow> bool" where
  "env_truthy w name = (case environ w name of None \<Rightarrow> False | Some v \<Rightarrow> v \<noteq> [])"

text \<open>\<^verbatim>\<open>_QtCursor()\<close>: the class has no constructor of its own.\<close>

definition qt_init :: "exn + tracker" where
  "qt_init = Inr QtCursor"

text \<open>
  \<^verbatim>\<open>create_cursor_tracker\<close>. The function is a sequence of attempts, each of which
  either returns or falls through to the statements after it; the definitions below are
  the function from one attempt to its end, last attempt first.
\<close>

definition select_x11 :: "world \<Rightarrow> exn + tracker" where
  "select_x11 w = try_return (x11_init w) (\<lambda>u. X11Cursor) qt_init"

definition select_hybrid :: "world \<Rightarrow> exn + tracker" where
  "select_hybrid w = try_return (hybrid_init w) WaylandHybridCursor (select_x11 w)"

definition select_kde :: "world \<Rightarrow> string \<Rightarrow> exn + tracker" where
  "select_kde w desktop =
     (if list_ex (\<lambda>d. str_contains d desktop) [''KDE'', ''PLASMA''] then
        try_return (case kde_init w of None \<Rightarrow> Inr () | Some e \<Rightarrow> Inl e)
          (\<lambda>u. KDECursor) (select_hybrid w)
      else select_hybrid w)"

definition select_gnome :: "world \<Rightarrow> string \<Rightarrow> exn + tracker" where
  "select_gnome w desktop =
     (if list_ex (\<lambda>d. str_contains d desktop) [''GNOME'', ''UBUNTU'', ''POP'', ''UNITY''] then
        try_return (gnome_init w) GnomeCursor (select_kde w desktop)
      else select_kde w desktop)"

definition is_wayland :: "world \<Rightarrow> bool" where
  "is_wayland w =
     (env_truthy w ''WAYLAND_DISPLAY'' \<or> environ w ''XDG_SESSION_TYPE'' = Some ''wayland'')"

definition desktop_of :: "world \<Rightarrow> string" where
  "desktop_of w =
     str_upper w (case environ w ''XDG_CURRENT_DESKTOP'' of None \<Rightarrow> [] | Some v \<Rightarrow> v)"

definition create_cursor_tracker :: "world \<Rightarrow> exn + tracker" where
  "create_cursor_tracker w =
     (if platform w = ''win32'' then
        try_return (win32_init w) (\<lambda>u. Win32Cursor) qt_init
      else if platform w = ''linux'' then
        (if is_wayland w then
           (if env_truthy w ''HYPRLAND_INSTANCE_SIGNATURE'' then
              try_return (hyprland_init w) HyprlandCursor (select_gnome w (desktop_of w))
            else select_gnome w (desktop_of w))
         else select_x11 w)
      else qt_init)"

section \<open>Configuration\<close>

text \<open>
  \<^verbatim>\<open>config.py\<close>. The attributes that \<^verbatim>\<open>adapt_to_screen\<close> rewrites at run time are
  the fields of the record \<open>config\<close>; the others are constants. An animation file is
  identified by its name: \<open>IdleGif i\<close> is \<^verbatim>\<open>idle<i>.gif\<close>.
\<close>

datatype gif = GIF_MOVE | GIF_DRAG | GIF_SEAL | IdleGif nat

definition GIF_IDLE :: "gif list" where
  "GIF_IDLE = [IdleGif 1, IdleGif 2, IdleGif 3, IdleGif 4, IdleGif 5]"

definition GIF_IDLE2 :: gif where
  "GIF_IDLE2 = IdleGif 2"

record config =
  SPRITE_SCALE :: real
  MOVE_SPEED :: real
  WANDER_SPEED :: real
  NEAR_DISTANCE :: real
  FAR_DISTANCE :: real
  WANDER_RADIUS :: real
  SEAL_WANDER_RADIUS :: real
  MOUSE_MOVE_THRESHOLD :: real

definition WANDER_DURATION_MIN :: int where
  "WANDER_DURATION_MIN = 2000"

definition WANDER_DURATION_MAX :: int where
  "WANDER_DURATION_MAX = 4000"

definition WANDER_DIR_CHANGE_MIN :: int where
  "WANDER_DIR_CHANGE_MIN = 500"

definition WANDER_DIR_CHANGE_MAX :: int where
  "WANDER_DIR_CHANGE_MAX = 1500"

definition IDLE_MIN_DURATION :: int where
  "IDLE_MIN_DURATION = 2000"

definition IDLE_MAX_DURATION :: int where
  "IDLE_MAX_DURATION = 6000"

definition MOUSE_IDLE_T1 :: int where
  "MOUSE_IDLE_T1 = 30000"

definition MOUSE_IDLE_T2 :: int where
  "MOUSE_IDLE_T2 = 120000"

definition IDLE2_RAMP_DURATION :: int where
  "IDLE2_RAMP_DURATION = 60000"

definition REFERENCE_SCREEN_HEIGHT :: int where
  "REFERENCE_SCREEN_HEIGHT = 1280"

text \<open>The values of the module as loaded (\<^verbatim>\<open>_BASE_VALUES\<close>).\<close>

definition base_config :: config where
  "base_config =
     \<lparr>SPRITE_SCALE = 0.35, MOVE_SPEED = 4, WANDER_SPEED = 1.5,
      NEAR_DISTANCE = 80, FAR_DISTANCE = 250, WANDER_RADIUS = 80,
      SEAL_WANDER_RADIUS = 120, MOUSE_MOVE_THRESHOLD = 5\<rparr>"

text \<open>\<^verbatim>\<open>adapt_to_screen\<close>: every base value times \<^verbatim>\<open>screen_height / 1280\<close>.\<close>

definition adapt_to_screen :: "int \<Rightarrow> config" where
  "adapt_to_screen screen_height =
     (let ratio = real_of_int screen_height / real_of_int REFERENCE_SCREEN_HEIGHT
      in \<lparr>SPRITE_SCALE = SPRITE_SCALE base_config * ratio,
          MOVE_SPEED = MOVE_SPEED base_config * ratio,
          WANDER_SPEED = WANDER_SPEED base_config * ratio,
          NEAR_DISTANCE = NEAR_DISTANCE base_config * ratio,
          FAR_DISTANCE = FAR_DISTANCE base_config * ratio,
          WANDER_RADIUS = WANDER_RADIUS base_config * ratio,
          SEAL_WANDER_RADIUS = SEAL_WANDER_RADIUS base_config * ratio,
          MOUSE_MOVE_THRESHOLD = MOUSE_MOVE_THRESHOLD base_config * ratio\<rparr>)"

section \<open>The random source\<close>

text \<open>
  The state of Python's module \<^verbatim>\<open>random\<close> is the sequence of the numbers that the coming
  calls of \<^verbatim>\<open>random.random()\<close> return, each in the interval from 0 (included) to 1
  (excluded); a call takes the head of the sequence. \<^verbatim>\<open>uniform(a, b)\<close> is
  \<^verbatim>\<open>a + (b - a) * random()\<close>. \<^verbatim>\<open>randint(a, b)\<close> and \<^verbatim>\<open>choice(seq)\<close> are modelled by
  scaling one such number, which has the distribution of the library's functions.
\<close>

type_synonym rng = "nat \<Rightarrow> real"

definition rng_rest :: "rng \<Rightarrow> rng" where
  "rng_rest g = (\<lambda>n. g (Suc n))"

definition random :: "rng \<Rightarrow> real \<times> rng" where
  "random g = (g 0, rng_rest g)"

definition uniform :: "real \<Rightarrow> real \<Rightarrow> rng \<Rightarrow> real \<times> rng" where
  "uniform a b g = (a + (b - a) * g 0, rng_rest g)"

definition randint :: "int \<Rightarrow> int \<Rightarrow> rng \<Rightarrow> int \<times> rng" where
  "randint a b g = (a + \<lfloor>g 0 * real_of_int (b - a + 1)\<rfloor>, rng_rest g)"

definition choice :: "'a list \<Rightarrow> rng \<Rightarrow> 'a \<times> rng" where
  "choice xs g =
     (let i = nat \<lfloor>g 0 * real (length xs)\<rfloor>
      in (xs ! (min i (length xs - 1)), rng_rest g))"

section \<open>The pet\<close>

datatype pet_state = CHASING | WANDERING | IDLING | DRAGGING | SEAL_MODE

record pet =
  pet_x :: real
  pet_y :: real
  state :: pet_state
  prev_state :: pet_state
  mouse_x :: real
  mouse_y :: real
  last_mouse_x :: real
  last_mouse_y :: real
  mouse_idle_start_ms :: real
  mouse_idle_time :: real
  mouse_pressed :: bool
  wander_anchor_x :: real
  wander_anchor_y :: real
  wander_target_x :: real
  wander_target_y :: real
  wander_end_time :: real
  wander_dir_change_time :: real
  idle_end_time :: real
  idle_anchor_mouse_x :: real
  idle_anchor_mouse_y :: real
  seal_active :: bool
  seal_x :: real
  seal_y :: real
  seal_wander_target_x :: real
  seal_wander_target_y :: real
  seal_wander_dir_time :: real
  current_gif :: gif
  flipped :: bool
  seal_should_appear :: bool
  seal_should_disappear :: bool
  move_speed :: real
  wander_speed :: real

text \<open>\<^verbatim>\<open>Pet.__init__\<close>.\<close>

definition pet_init :: "config \<Rightarrow> real \<Rightarrow> real \<Rightarrow> pet" where
  "pet_init cfg start_x start_y =
     \<lparr>pet_x = start_x, pet_y = start_y,
      state = CHASING, prev_state = CHASING,
      mouse_x = start_x, mouse_y = start_y,
      last_mouse_x = start_x, last_mouse_y = start_y,
      mouse_idle_start_ms = 0, mouse_idle_time = 0, mouse_pressed = False,
      wander_anchor_x = start_x, wander_anchor_y = start_y,
      wander_target_x = start_x, wander_target_y = start_y,
      wander_end_time = 0, wander_dir_change_time = 0,
      idle_end_time = 0,
      idle_anchor_mouse_x = start_x, idle_anchor_mouse_y = start_y,
      seal_active = False, seal_x = 0, seal_y = 0,
      seal_wander_target_x = 0, seal_wander_target_y = 0, seal_wander_dir_time = 0,
      current_gif = GIF_MOVE, flipped = False,
      seal_should_appear = False, seal_should_disappear = False,
      move_speed = MOVE_SPEED cfg, wander_speed = WANDER_SPEED cfg\<rparr>"

text \<open>\<^verbatim>\<open>Pet.update_mouse\<close>.\<close>

definition update_mouse :: "config \<Rightarrow> pet \<Rightarrow> real \<Rightarrow> real \<Rightarrow> bool \<Rightarrow> real \<Rightarrow> pet" where
  "update_mouse cfg p mx my buttons_pressed now_ms =
     (let p1 = p\<lparr>mouse_pressed := buttons_pressed\<rparr>;
          dx = mx - last_mouse_x p1;
          dy = my - last_mouse_y p1;
          moved = (hypot dx dy > MOUSE_MOVE_THRESHOLD cfg);
          p2 =
            (if moved then
               (let p3 = p1\<lparr>mouse_idle_start_ms := now_ms, mouse_idle_time := 0\<rparr>
                in if seal_active p3
                   then p3\<lparr>seal_active := False, seal_should_disappear := True\<rparr>
                   else p3)
             else p1\<lparr>mouse_idle_time := now_ms - mouse_idle_start_ms p1\<rparr>)
      in p2\<lparr>last_mouse_x := mx, last_mouse_y := my, mouse_x := mx, mouse_y := my\<rparr>)"

text \<open>\<^verbatim>\<open>Pet.set_seal_position\<close>.\<close>

definition set_seal_position :: "pet \<Rightarrow> real \<Rightarrow> real \<Rightarrow> pet" where
  "set_seal_position p sx sy = p\<lparr>seal_x := sx, seal_y := sy\<rparr>"

subsection \<open>Helpers\<close>

text \<open>
  \<^verbatim>\<open>Pet._move_toward\<close>. Every caller passes a speed that is not negative, so the
  divisor \<open>distance\<close> (the source's \<^verbatim>\<open>dist\<close>) of the second branch is positive.
\<close>

definition move_toward :: "pet \<Rightarrow> real \<Rightarrow> real \<Rightarrow> real \<Rightarrow> real \<Rightarrow> pet" where
  "move_toward p dx dy distance speed =
     (if distance \<le> speed then p\<lparr>pet_x := pet_x p + dx, pet_y := pet_y p + dy\<rparr>
      else p\<lparr>pet_x := pet_x p + dx / distance * speed, pet_y := pet_y p + dy / distance * speed\<rparr>)"

definition pick_wander_target :: "config \<Rightarrow> pet \<Rightarrow> real \<Rightarrow> rng \<Rightarrow> pet \<times> rng" where
  "pick_wander_target cfg p now_ms g =
     (case uniform 0 (2 * pi) g of (angle, g1) \<Rightarrow>
      case uniform 20 (WANDER_RADIUS cfg) g1 of (r, g2) \<Rightarrow>
      case randint WANDER_DIR_CHANGE_MIN WANDER_DIR_CHANGE_MAX g2 of (d, g3) \<Rightarrow>
        (p\<lparr>wander_target_x := wander_anchor_x p + r * cos angle,
           wander_target_y := wander_anchor_y p + r * sin angle,
           wander_dir_change_time := now_ms + real_of_int d\<rparr>, g3))"

definition init_wander :: "config \<Rightarrow> pet \<Rightarrow> real \<Rightarrow> rng \<Rightarrow> pet \<times> rng" where
  "init_wander cfg p now_ms g =
     (case randint WANDER_DURATION_MIN WANDER_DURATION_MAX g of (d, g1) \<Rightarrow>
        pick_wander_target cfg
          (p\<lparr>wander_anchor_x := mouse_x p, wander_anchor_y := mouse_y p,
             wander_end_time := now_ms + real_of_int d\<rparr>) now_ms g1)"

text \<open>
  The loop of \<^verbatim>\<open>_pick_idle_gif\<close> over \<^verbatim>\<open>config.GIF_IDLE\<close>; \<open>None\<close> when it ends without
  returning.
\<close>

fun idle_gif_loop :: "real \<Rightarrow> real \<Rightarrow> real \<Rightarrow> real \<Rightarrow> gif list \<Rightarrow> gif option" where
  "idle_gif_loop r idle2_prob other_prob cumulative [] = None"
| "idle_gif_loop r idle2_prob other_prob cumulative (gif # rest) =
     (let prob = (if gif = GIF_IDLE2 then idle2_prob else other_prob);
          cumulative' = cumulative + prob
      in if r < cumulative' then Some gif
         else idle_gif_loop r idle2_prob other_prob cumulative' rest)"

text \<open>
  The local variables \<^verbatim>\<open>idle2_prob\<close> and \<^verbatim>\<open>other_prob\<close> of \<^verbatim>\<open>_pick_idle_gif\<close>, as
  functions of the mouse idle time.
\<close>

definition idle2_prob :: "real \<Rightarrow> real" where
  "idle2_prob idle_time =
     (let n = length GIF_IDLE;
          elapsed = idle_time - real_of_int MOUSE_IDLE_T1;
          ramp = min (elapsed / real_of_int IDLE2_RAMP_DURATION) 1;
          base = 1 / real n
      in base + ramp * (1 - base))"

definition other_prob :: "real \<Rightarrow> real" where
  "other_prob idle_time =
     (let n = length GIF_IDLE
      in (1 - idle2_prob idle_time) / real_of_int (max (int n - 1) 1))"

text \<open>\<^verbatim>\<open>Pet._pick_idle_gif\<close>.\<close>

definition pick_idle_gif :: "pet \<Rightarrow> rng \<Rightarrow> gif \<times> rng" where
  "pick_idle_gif p g =
     (if length GIF_IDLE = 0 then (GIF_MOVE, g)
      else if mouse_idle_time p < real_of_int MOUSE_IDLE_T1 then choice GIF_IDLE g
      else
        (case random g of (r, g1) \<Rightarrow>
           (case idle_gif_loop r (idle2_prob (mouse_idle_time p))
                   (other_prob (mouse_idle_time p)) 0 GIF_IDLE of
              Some gif \<Rightarrow> (gif, g1)
            | None \<Rightarrow> (last GIF_IDLE, g1))))"

definition init_idle :: "pet \<Rightarrow> real \<Rightarrow> rng \<Rightarrow> pet \<times> rng" where
  "init_idle p now_ms g =
     (let p1 = p\<lparr>idle_anchor_mouse_x := mouse_x p, idle_anchor_mouse_y := mouse_y p\<rparr>
      in case pick_idle_gif p1 g of (gif, g1) \<Rightarrow>
         case randint IDLE_MIN_DURATION IDLE_MAX_DURATION g1 of (d, g2) \<Rightarrow>
           (p1\<lparr>current_gif := gif, idle_end_time := now_ms + real_of_int d,
               flipped := False\<rparr>, g2))"

subsection \<open>State handlers\<close>

definition handle_dragging :: "pet \<Rightarrow> pet" where
  "handle_dragging p = p\<lparr>current_gif := GIF_DRAG, flipped := False\<rparr>"

definition handle_chasing :: "config \<Rightarrow> pet \<Rightarrow> real \<Rightarrow> real \<Rightarrow> real \<Rightarrow> real \<Rightarrow> rng
    \<Rightarrow> pet \<times> rng" where
  "handle_chasing cfg p dx dy distance now_ms g =
     (if distance < NEAR_DISTANCE cfg then init_wander cfg (p\<lparr>state := WANDERING\<rparr>) now_ms g
      else ((move_toward p dx dy distance (move_speed p))
              \<lparr>current_gif := GIF_MOVE, flipped := (dx < 0)\<rparr>, g))"

definition handle_wandering :: "config \<Rightarrow> pet \<Rightarrow> real \<Rightarrow> real \<Rightarrow> real \<Rightarrow> real \<Rightarrow> rng
    \<Rightarrow> pet \<times> rng" where
  "handle_wandering cfg p dx dy distance now_ms g =
     (if distance > FAR_DISTANCE cfg \<and> \<not> seal_active p then (p\<lparr>state := CHASING\<rparr>, g)
      else if now_ms > wander_end_time p then init_idle (p\<lparr>state := IDLING\<rparr>) now_ms g
      else
        (let p1 = (if seal_active p
                   then p\<lparr>wander_anchor_x := seal_x p, wander_anchor_y := seal_y p\<rparr>
                   else p\<lparr>wander_anchor_x := mouse_x p, wander_anchor_y := mouse_y p\<rparr>)
         in case (if now_ms > wander_dir_change_time p1
                  then pick_wander_target cfg p1 now_ms g else (p1, g)) of
              (p2, g2) \<Rightarrow>
                (let wx = wander_target_x p2 - pet_x p2;
                     wy = wander_target_y p2 - pet_y p2;
                     wdist = hypot wx wy
                 in case (if wdist < wander_speed p2
                          then pick_wander_target cfg p2 now_ms g2
                          else (move_toward p2 wx wy wdist (wander_speed p2), g2)) of
                      (p3, g3) \<Rightarrow> (p3\<lparr>current_gif := GIF_MOVE, flipped := (wx < 0)\<rparr>, g3))))"

definition handle_idling :: "config \<Rightarrow> pet \<Rightarrow> real \<Rightarrow> real \<Rightarrow> real \<Rightarrow> real \<Rightarrow> rng
    \<Rightarrow> pet \<times> rng" where
  "handle_idling cfg p dx dy distance now_ms g =
     (if distance > FAR_DISTANCE cfg \<and> \<not> seal_active p then (p\<lparr>state := CHASING\<rparr>, g)
      else if \<not> seal_active p
              \<and> hypot (mouse_x p - idle_anchor_mouse_x p) (mouse_y p - idle_anchor_mouse_y p)
                  > MOUSE_MOVE_THRESHOLD cfg * 10
      then init_wander cfg (p\<lparr>state := WANDERING\<rparr>) now_ms g
      else if \<not> seal_active p \<and> mouse_idle_time p > real_of_int MOUSE_IDLE_T2
      then (p\<lparr>seal_active := True, seal_should_appear := True, state := SEAL_MODE,
              seal_wander_dir_time := 0\<rparr>, g)
      else
        (case (if now_ms > idle_end_time p then
                 (case pick_idle_gif p g of (gif, g1) \<Rightarrow>
                  case randint IDLE_MIN_DURATION IDLE_MAX_DURATION g1 of (d, g2) \<Rightarrow>
                    (p\<lparr>current_gif := gif, idle_end_time := now_ms + real_of_int d\<rparr>, g2))
               else (p, g)) of
           (p1, g1) \<Rightarrow> (p1\<lparr>flipped := False\<rparr>, g1)))"

definition handle_seal_mode :: "config \<Rightarrow> pet \<Rightarrow> real \<Rightarrow> real \<Rightarrow> real \<Rightarrow> real \<Rightarrow> rng
    \<Rightarrow> pet \<times> rng" where
  "handle_seal_mode cfg p dx dy distance now_ms g =
     (if \<not> seal_active p then (p\<lparr>state := CHASING\<rparr>, g)
      else
        (let sdx = seal_x p - pet_x p;
             sdy = seal_y p - pet_y p;
             sdist = hypot sdx sdy
         in if sdist > NEAR_DISTANCE cfg then
              ((move_toward p sdx sdy sdist (move_speed p))
                 \<lparr>current_gif := GIF_MOVE, flipped := (sdx < 0)\<rparr>, g)
            else
              (case (if now_ms > seal_wander_dir_time p then
                       (case uniform 0 (2 * pi) g of (angle, g1) \<Rightarrow>
                        case uniform 20 (SEAL_WANDER_RADIUS cfg) g1 of (r, g2) \<Rightarrow>
                        case randint WANDER_DIR_CHANGE_MIN WANDER_DIR_CHANGE_MAX g2 of (d, g3) \<Rightarrow>
                          (p\<lparr>seal_wander_target_x := seal_x p + r * cos angle,
                             seal_wander_target_y := seal_y p + r * sin angle,
                             seal_wander_dir_time := now_ms + real_of_int d\<rparr>, g3))
                     else (p, g)) of
                 (p1, g1) \<Rightarrow>
                   (let wx = seal_wander_target_x p1 - pet_x p1;
                        wy = seal_wander_target_y p1 - pet_y p1;
                        wdist = hypot wx wy;
                        p2 = (if wdist > wander_speed p1
                              then move_toward p1 wx wy wdist (wander_speed p1) else p1)
                    in (p2\<lparr>current_gif := GIF_MOVE, flipped := (wx < 0)\<rparr>, g1)))))"

subsection \<open>Tick\<close>

text \<open>The drag detection at the head of \<^verbatim>\<open>Pet.tick\<close>.\<close>

definition drag_detection :: "pet \<Rightarrow> pet" where
  "drag_detection p =
     (if mouse_pressed p \<and> state p \<noteq> DRAGGING then p\<lparr>prev_state := state p, state := DRAGGING\<rparr>
      else if \<not> mouse_pressed p \<and> state p = DRAGGING then p\<lparr>state := prev_state p\<rparr>
      else p)"

text \<open>The target chosen by \<^verbatim>\<open>Pet.tick\<close> after the drag detection.\<close>

definition choose_target :: "pet \<Rightarrow> real \<times> real" where
  "choose_target p =
     (if seal_active p \<and> state p \<noteq> DRAGGING then (seal_x p, seal_y p)
      else (mouse_x p, mouse_y p))"

text \<open>The value of \<^verbatim>\<open>dist\<close> in a call of \<^verbatim>\<open>Pet.tick\<close> on the pet \<open>p\<close>.\<close>

definition tick_dist :: "pet \<Rightarrow> real" where
  "tick_dist p =
     (let p1 = drag_detection p
      in case choose_target p1 of
           (target_x, target_y) \<Rightarrow> hypot (target_x - pet_x p1) (target_y - pet_y p1))"

text \<open>\<^verbatim>\<open>Pet.tick\<close>.\<close>

definition tick :: "config \<Rightarrow> pet \<Rightarrow> real \<Rightarrow> rng \<Rightarrow> pet \<times> rng" where
  "tick cfg p now_ms g =
     (let p1 = drag_detection p
      in case choose_target p1 of
           (target_x, target_y) \<Rightarrow>
             (let dx = target_x - pet_x p1;
                  dy = target_y - pet_y p1;
                  distance = hypot dx dy
              in case state p1 of
                   CHASING \<Rightarrow> handle_chasing cfg p1 dx dy distance now_ms g
                 | WANDERING \<Rightarrow> handle_wandering cfg p1 dx dy distance now_ms g
                 | IDLING \<Rightarrow> handle_idling cfg p1 dx dy distance now_ms g
                 | DRAGGING \<Rightarrow> (handle_dragging p1, g)
                 | SEAL_MODE \<Rightarrow> handle_seal_mode cfg p1 dx dy distance now_ms g))"

section \<open>The tick driver\<close>

text \<open>
  The part of \<^verbatim>\<open>AemeathApp._tick\<close> that drives the pet: the two output flags are
  cleared, the sample \<open>(mx, my, buttons)\<close> of the cursor tracker is divided by the
  device pixel ratio where the tracker asks for it, and the pet is fed and advanced.
  The statements that follow in the source (showing and hiding the seal sprite, the seal
  position, the clamping of the position to the screen, the sprite update) assign neither
  flag.
\<close>

text \<open>
  A coordinate of the sample after \<^verbatim>\<open>if dpr and dpr != 1.0: mx /= dpr\<close>, which runs
  when the tracker sets \<^verbatim>\<open>needs_dpr_scaling\<close>.
\<close>

definition dpr_scaled :: "bool \<Rightarrow> real \<Rightarrow> real \<Rightarrow> real" where
  "dpr_scaled needs_dpr_scaling dpr v =
     (if needs_dpr_scaling \<and> dpr \<noteq> 0 \<and> dpr \<noteq> 1 then v / dpr else v)"

definition app_tick :: "config \<Rightarrow> pet \<Rightarrow> real \<Rightarrow> real \<Rightarrow> bool \<Rightarrow> bool \<Rightarrow> real \<Rightarrow> real \<Rightarrow> rng
    \<Rightarrow> pet \<times> rng" where
  "app_tick cfg p mx my buttons needs_dpr_scaling dpr now_ms g =
     (let p1 = p\<lparr>seal_should_appear := False, seal_should_disappear := False\<rparr>;
          mx' = dpr_scaled needs_dpr_scaling dpr mx;
          my' = dpr_scaled needs_dpr_scaling dpr my;
          p2 = update_mouse cfg p1 mx' my' buttons now_ms
      in tick cfg p2 now_ms g)"

section \<open>Runs of queries and of ticks\<close>

text \<open>
  Successive calls of \<^verbatim>\<open>_WaylandHybridCursor.query\<close>: each step gives the pending
  device input and what \<^verbatim>\<open>XQueryPointer\<close> writes at that call.
\<close>

type_synonym query_input = "8 word list list \<times> int \<times> int \<times> 32 word"

fun query_all :: "hybrid \<Rightarrow> query_input list \<Rightarrow> hybrid" where
  "query_all h [] = h"
| "query_all h ((pending, rx, ry, mask_value) # rest) =
     query_all (fst (hybrid_query h pending rx ry mask_value)) rest"

text \<open>The raw deltas that \<^verbatim>\<open>_read_mice\<close> returns at a step.\<close>

definition raw_dx_of :: "query_input \<Rightarrow> int" where
  "raw_dx_of step = fst (read_mice (fst step))"

definition raw_dy_of :: "query_input \<Rightarrow> int" where
  "raw_dy_of step = fst (snd (read_mice (fst step)))"

text \<open>Every step of the run reads the position that \<open>last_x11_x\<close>, \<open>last_x11_y\<close> hold.\<close>

definition all_stale :: "hybrid \<Rightarrow> query_input list \<Rightarrow> bool" where
  "all_stale h steps =
     list_all (\<lambda>step. real_of_int (fst (snd step)) = last_x11_x h
                     \<and> real_of_int (fst (snd (snd step))) = last_x11_y h) steps"

text \<open>
  The positions reached by adding the raw deltas times the sensitivity, one step after
  the other and without clamping, all lie inside the display bounds.
\<close>

fun stays_inside :: "hybrid \<Rightarrow> real \<Rightarrow> real \<Rightarrow> query_input list \<Rightarrow> bool" where
  "stays_inside h px py [] = True"
| "stays_inside h px py (step # rest) =
     (let px' = px + real_of_int (raw_dx_of step) * sensitivity h;
          py' = py + real_of_int (raw_dy_of step) * sensitivity h
      in 0 \<le> px' \<and> px' \<le> screen_w h - 1 \<and> 0 \<le> py' \<and> py' \<le> screen_h h - 1
         \<and> stays_inside h px' py' rest)"

text \<open>
  One frame of the pet as its docstring prescribes it: \<^verbatim>\<open>update_mouse\<close> with the
  sample \<open>(mx, my, buttons_pressed)\<close> and the time, then \<^verbatim>\<open>tick\<close>.
\<close>

type_synonym pet_input = "real \<times> real \<times> bool \<times> real"

definition pet_step :: "config \<Rightarrow> pet \<Rightarrow> rng \<Rightarrow> pet_input \<Rightarrow> pet \<times> rng" where
  "pet_step cfg p g inp =
     (case inp of (mx, my, buttons_pressed, now_ms) \<Rightarrow>
        tick cfg (update_mouse cfg p mx my buttons_pressed now_ms) now_ms g)"

fun run :: "config \<Rightarrow> pet \<Rightarrow> rng \<Rightarrow> pet_input list \<Rightarrow> pet \<times> rng" where
  "run cfg p g [] = (p, g)"
| "run cfg p g (inp # rest) = (case pet_step cfg p g inp of (p', g') \<Rightarrow> run cfg p' g' rest)"

text \<open>The value of \<^verbatim>\<open>dist\<close> in the tick of a frame.\<close>

definition step_dist :: "config \<Rightarrow> pet \<Rightarrow> pet_input \<Rightarrow> real" where
  "step_dist cfg p inp =
     (case inp of (mx, my, buttons_pressed, now_ms) \<Rightarrow>
        tick_dist (update_mouse cfg p mx my buttons_pressed now_ms))"

text \<open>
  In every frame of a run the target distance lies strictly between
  \<^verbatim>\<open>NEAR_DISTANCE\<close> and \<^verbatim>\<open>FAR_DISTANCE\<close>.
\<close>

fun in_band :: "config \<Rightarrow> pet \<Rightarrow> rng \<Rightarrow> pet_input list \<Rightarrow> bool" where
  "in_band cfg p g [] = True"
| "in_band cfg p g (inp # rest) =
     (NEAR_DISTANCE cfg < step_dist cfg p inp \<and> step_dist cfg p inp < FAR_DISTANCE cfg
      \<and> (case pet_step cfg p g inp of (p', g') \<Rightarrow> in_band cfg p' g' rest))"

text \<open>
  The number of frames of a run that take the pet from \<open>CHASING\<close> to \<open>WANDERING\<close> or
  from \<open>WANDERING\<close> to \<open>CHASING\<close>.
\<close>

definition is_flip :: "pet_state \<Rightarrow> pet_state \<Rightarrow> bool" where
  "is_flip s s' = ((s = CHASING \<and> s' = WANDERING) \<or> (s = WANDERING \<and> s' = CHASING))"

fun flip_flops :: "config \<Rightarrow> pet \<Rightarrow> rng \<Rightarrow> pet_input list \<Rightarrow> nat" where
  "flip_flops cfg p g [] = 0"
| "flip_flops cfg p g (inp # rest) =
     (case pet_step cfg p g inp of (p', g') \<Rightarrow>
        (if is_flip (state p) (state p') then 1 else 0) + flip_flops cfg p' g' rest)"

text \<open>Every frame of a run has the button pressed.\<close>

definition all_pressed :: "pet_input list \<Rightarrow> bool" where
  "all_pressed inps = list_all (\<lambda>inp. fst (snd (snd inp))) inps"

text \<open>
  The seal phase: a seal is active and the pet is in \<open>SEAL_MODE\<close>, or is dragged out of
  \<open>SEAL_MODE\<close>.
\<close>

definition in_seal :: "pet \<Rightarrow> bool" where
  "in_seal p =
     (seal_active p
      \<and> (state p = SEAL_MODE \<or> (state p = DRAGGING \<and> prev_state p = SEAL_MODE)))"

text \<open>
  In every frame of a run the pointer is within the movement threshold of where the
  frame before left it: \<^verbatim>\<open>update_mouse\<close> sees no movement.
\<close>

fun quiet :: "config \<Rightarrow> pet \<Rightarrow> rng \<Rightarrow> pet_input list \<Rightarrow> bool" where
  "quiet cfg p g [] = True"
| "quiet cfg p g (inp # rest) =
     (hypot (fst inp - last_mouse_x p) (fst (snd inp) - last_mouse_y p)
        \<le> MOUSE_MOVE_THRESHOLD cfg
      \<and> (case pet_step cfg p g inp of (p', g') \<Rightarrow> quiet cfg p' g' rest))"

text \<open>
  The conditions under which a frame sets the two output flags: \<^verbatim>\<open>update_mouse\<close> sets
  \<^verbatim>\<open>seal_should_disappear\<close> when the pointer moved while a seal was active, and
  \<^verbatim>\<open>_handle_idling\<close> sets \<^verbatim>\<open>seal_should_appear\<close> when it reaches its seal branch.
\<close>

definition despawn_triggered :: "config \<Rightarrow> pet \<Rightarrow> real \<Rightarrow> real \<Rightarrow> bool" where
  "despawn_triggered cfg p mx my =
     (hypot (mx - last_mouse_x p) (my - last_mouse_y p) > MOUSE_MOVE_THRESHOLD cfg
      \<and> seal_active p)"

definition spawn_triggered :: "config \<Rightarrow> pet \<Rightarrow> bool" where
  "spawn_triggered cfg p =
     (let p1 = drag_detection p
      in state p1 = IDLING
         \<and> \<not> seal_active p1
         \<and> tick_dist p \<le> FAR_DISTANCE cfg
         \<and> hypot (mouse_x p1 - idle_anchor_mouse_x p1) (mouse_y p1 - idle_anchor_mouse_y p1)
             \<le> MOUSE_MOVE_THRESHOLD cfg * 10
         \<and> mouse_idle_time p1 > real_of_int MOUSE_IDLE_T2)"

section \<open>Example inputs\<close>

text \<open>
  A Wayland session that names Hyprland, GNOME and KDE and in which no facility of any
  specialised backend is available. The desktop name is ASCII, where \<^verbatim>\<open>str.upper\<close>
  is \<open>upper\<close>.
\<close>

definition bare_wayland :: world where
  "bare_wayland =
     \<lparr>platform = ''linux'',
      environ = [''WAYLAND_DISPLAY'' \<mapsto> ''wayland-0'',
                 ''HYPRLAND_INSTANCE_SIGNATURE'' \<mapsto> ''abc'',
                 ''XDG_CURRENT_DESKTOP'' \<mapsto> ''kde:GNOME''],
      str_upper = upper,
      path_exists = (\<lambda>p. False),
      ipc_cursorpos = (\<lambda>p. Inl (SocketError FileNotFoundError)),
      py_float = (\<lambda>s. None),
      windll = False,
      gnome_gi = Some (ImportError ''gi''),
      gnome_subprocess = Some (RuntimeError ''gdbus call failed''),
      kde_init = Some (RuntimeError ''Cannot connect to session D-Bus''),
      mice_readable = False,
      mice_open = Some PermissionError,
      libx11_found = False,
      libx11_load = Some OtherOSError,
      x_display = False,
      x_display_width = 0,
      x_display_height = 0,
      x_pointer = (0, 0)\<rparr>"

text \<open>A hybrid tracker seeded at the origin of a display of 100 by 100 pixels.\<close>

definition hybrid_at_origin :: hybrid where
  "hybrid_at_origin =
     \<lparr>screen_w = 100, screen_h = 100, hyb_x = 0, hyb_y = 0,
      last_x11_x = 0, last_x11_y = 0, sensitivity = 1\<rparr>"

text \<open>
  A hybrid tracker seeded with a pointer position beyond the width of screen 0, as
  \<^verbatim>\<open>XQueryPointer\<close> reports it while the pointer is on another X screen.
\<close>

definition hybrid_off_screen :: hybrid where
  "hybrid_off_screen =
     \<lparr>screen_w = 100, screen_h = 100, hyb_x = 150, hyb_y = 20,
      last_x11_x = 150, last_x11_y = 20, sensitivity = 1\<rparr>"

text \<open>
  PS/2 packets: ten counts to the left, ten counts to the right, and three counts to the
  right with four counts down the screen.
\<close>

definition packet_left10 :: "8 word list" where
  "packet_left10 = [0x18, 0xF6, 0x00]"

definition packet_right10 :: "8 word list" where
  "packet_right10 = [0x08, 0x0A, 0x00]"

definition packet_3_4 :: "8 word list" where
  "packet_3_4 = [0x28, 0x03, 0xFC]"

text \<open>
  Two runs of queries during which \<^verbatim>\<open>XQueryPointer\<close> keeps answering the seed position
  \<open>(0, 0)\<close>: one that moves left and then right, one that moves right and then down.
\<close>

definition bounce_steps :: "query_input list" where
  "bounce_steps = [([packet_left10], 0, 0, 0), ([packet_right10], 0, 0, 0)]"

definition sweep_steps :: "query_input list" where
  "sweep_steps = [([packet_right10], 0, 0, 0), ([packet_3_4], 0, 0, 0)]"

text \<open>A random source whose every draw is zero.\<close>

definition no_draws :: rng where
  "no_draws = (\<lambda>n. 0)"

text \<open>
  A pet at the origin that is idling, with the pointer last seen at \<open>(m, 0)\<close>, the mouse
  idle since time \<open>0\<close>, and the pointer position at the start of idling \<open>(a, 0)\<close>.
\<close>

definition idling_pet :: "real \<Rightarrow> real \<Rightarrow> pet" where
  "idling_pet m a =
     (pet_init base_config 0 0)
       \<lparr>state := IDLING, mouse_x := m, last_mouse_x := m, idle_anchor_mouse_x := a\<rparr>"

text \<open>
  Frames of a pet created at the origin: the pointer at distance 90 and 200 in turn
  from the pet, which chases it by 4 pixels a frame.
\<close>

definition oscillating_inputs :: "pet_input list" where
  "oscillating_inputs =
     [(90, 0, False, 33), (204, 0, False, 66), (98, 0, False, 99), (212, 0, False, 132)]"

text \<open>
  Frames of a pet created at the origin: the pointer rests on the pet, the button is
  pressed, and the button is released with the pointer 300 pixels away.
\<close>

definition drag_inputs :: "pet_input list" where
  "drag_inputs = [(0, 0, False, 0), (0, 0, True, 33), (300, 0, False, 66)]"

text \<open>
  A wandering pet at the origin on which the button has just been pressed, and the same
  pet one tick later with the button released again.
\<close>

definition pressed_pet :: pet where
  "pressed_pet =
     (pet_init base_config 0 0)
       \<lparr>state := WANDERING, mouse_pressed := True, wander_end_time := 3000, mouse_x := 10\<rparr>"

definition released_pet :: pet where
  "released_pet = (fst (tick base_config pressed_pet 1000 no_draws))\<lparr>mouse_pressed := False\<rparr>"

text \<open>
  A wandering pet at the origin with the button released and the pointer 300 pixels
  away, and the dragged pet of above with the pointer moved there.
\<close>

definition far_wandering_pet :: pet where
  "far_wandering_pet = pressed_pet\<lparr>mouse_pressed := False, mouse_x := 300\<rparr>"

definition released_far_pet :: pet where
  "released_far_pet = released_pet\<lparr>mouse_x := 300\<rparr>"

text \<open>
  The idling pet with the pointer resting at \<open>(10, 0)\<close>, after the frame at time
  120001 ms.
\<close>

definition sealed_pet :: pet where
  "sealed_pet = fst (pet_step base_config (idling_pet 10 10) no_draws (10, 0, False, 120001))"

text \<open>The idling pet with both output flags left set by an earlier frame.\<close>

definition stale_flags_pet :: pet where
  "stale_flags_pet =
     (idling_pet 10 10)\<lparr>seal_should_appear := True, seal_should_disappear := True\<rparr>"

text \<open>A pet whose mouse idle time is \<open>t\<close>, and a random source whose every draw is \<open>r\<close>.\<close>

definition idle_for :: "real \<Rightarrow> pet" where
  "idle_for t = (pet_init base_config 0 0)\<lparr>mouse_idle_time := t\<rparr>"

definition draws_of :: "real \<Rightarrow> rng" where
  "draws_of r = (\<lambda>n. r)"

text \<open>
  A wandering pet at the origin with the button released, and frames that press the
  button and hold it while the pointer moves.
\<close>

definition wandering_pet :: pet where
  "wandering_pet = (pet_init base_config 0 0)\<lparr>state := WANDERING, wander_end_time := 3000\<rparr>"

definition hold_inputs :: "pet_input list" where
  "hold_inputs = [(10, 0, True, 1000), (20, 0, True, 1033), (30, 0, True, 1066)]"

text \<open>
  Frames after the seal appeared in which the pointer moves by at most two pixels: it
  rests, the button is pressed, and the button is released.
\<close>

definition quiet_inputs :: "pet_input list" where
  "quiet_inputs = [(10, 0, False, 120034), (12, 0, True, 120067), (12, 0, False, 120100)]"

section \<open>Backend selection never fails\<close>

lemma try_return_ok: "\<exists>t. rest = Inr t \<Longrightarrow> \<exists>t. try_return a wrap rest = Inr t"
  by (auto simp: try_return_def split: sum.splits)

lemma select_x11_ok: "\<exists>t. select_x11 w = Inr t"
  unfolding select_x11_def by (rule try_return_ok) (simp add: qt_init_def)

lemma select_hybrid_ok: "\<exists>t. select_hybrid w = Inr t"
  unfolding select_hybrid_def by (rule try_return_ok) (rule select_x11_ok)

lemma select_kde_ok: "\<exists>t. select_kde w desktop = Inr t"
  by (auto simp: select_kde_def intro!: try_return_ok select_hybrid_ok)

lemma select_gnome_ok: "\<exists>t. select_gnome w desktop = Inr t"
  by (auto simp: select_gnome_def intro!: try_return_ok select_kde_ok)

lemma create_cursor_tracker_ok: "\<exists>t. create_cursor_tracker w = Inr t"
  by (auto simp: create_cursor_tracker_def qt_init_def
      intro!: try_return_ok select_gnome_ok select_x11_ok)

text \<open>
  Claim C1. For every platform, every environment and every pattern of failing
  constructors, \<^verbatim>\<open>create_cursor_tracker\<close> returns a tracker and raises nothing; the Qt
  fallback at the end of the chain is constructed without any condition and its
  construction cannot fail.
\<close>

theorem create_cursor_tracker_never_raises:
  "(\<exists>t. create_cursor_tracker w = Inr t) \<and> create_cursor_tracker w \<noteq> Inl e
   \<and> qt_init = Inr QtCursor"
  using create_cursor_tracker_ok[of w] by (auto simp: qt_init_def)

lemma bare_wayland_desktop: "desktop_of bare_wayland = ''KDE:GNOME''"
  by (simp add: desktop_of_def bare_wayland_def upper_def upper_char_def)

lemma bare_wayland_select_hybrid: "select_hybrid bare_wayland = Inr QtCursor"
proof -
  have hybrid: "hybrid_init bare_wayland = Inl (RuntimeError ''/dev/input/mice is not readable'')"
    by (simp add: hybrid_init_def bare_wayland_def)
  have x11: "x11_init bare_wayland = Inl (RuntimeError ''libX11 not found'')"
    by (simp add: x11_init_def bare_wayland_def)
  show ?thesis
    by (simp add: select_hybrid_def select_x11_def hybrid x11 try_return_def qt_init_def)
qed

lemma bare_wayland_select_gnome: "select_gnome bare_wayland ''KDE:GNOME'' = Inr QtCursor"
proof -
  have gnome: "gnome_init bare_wayland = Inl (RuntimeError ''gdbus call failed'')"
    by (simp add: gnome_init_def bare_wayland_def)
  have kde: "kde_init bare_wayland = Some (RuntimeError ''Cannot connect to session D-Bus'')"
    by (simp add: bare_wayland_def)
  show ?thesis
    by (simp add: select_gnome_def select_kde_def gnome kde try_return_def
        bare_wayland_select_hybrid)
qed

theorem create_cursor_tracker_never_raises_witness:
  "create_cursor_tracker bare_wayland = Inr QtCursor
   \<and> (\<exists>t. create_cursor_tracker bare_wayland = Inr t)"
proof -
  have hypr: "hyprland_init bare_wayland = Inl (OSError FileNotFoundError)"
    by (simp add: hyprland_init_def hyprland_init_trace_def runtime_dir_def
        hyprland_candidates_def get_pos_def bare_wayland_def)
  have env: "platform bare_wayland = ''linux''" "is_wayland bare_wayland"
    "env_truthy bare_wayland ''HYPRLAND_INSTANCE_SIGNATURE''"
    by (simp_all add: bare_wayland_def env_truthy_def is_wayland_def)
  have "create_cursor_tracker bare_wayland = Inr QtCursor"
    by (simp add: create_cursor_tracker_def hypr env try_return_def bare_wayland_desktop
        bare_wayland_select_gnome)
  with create_cursor_tracker_never_raises[of bare_wayland] show ?thesis
    by blast
qed

section \<open>The socket guard of the Hyprland constructor\<close>

lemma find_socket_Some: "(find_socket ex (Some s) ps = None) = False"
  by (induction ps) auto

lemma hyprland_guard_not_taken: "snd (hyprland_init_trace w) = False"
  by (simp add: hyprland_init_trace_def Let_def find_socket_Some
      split: option.splits sum.splits)

lemma hyprland_init_no_candidate:
  assumes "environ w ''HYPRLAND_INSTANCE_SIGNATURE'' = Some sig"
    and "list_all (\<lambda>p. \<not> path_exists w p) (hyprland_candidates (runtime_dir w) sig)"
  shows "hyprland_init w
         = (case get_pos w [] of Inl e \<Rightarrow> Inl e | Inr r \<Rightarrow> Inr \<lparr>socket_path = []\<rparr>)"
  using assms
  by (simp add: hyprland_init_def hyprland_init_trace_def Let_def hyprland_candidates_def
      split: sum.splits)

lemma get_pos_socket_error:
  "ipc_cursorpos w path = Inl (SocketError err) \<Longrightarrow> get_pos w path = Inl (OSError err)"
  by (simp add: get_pos_def)

text \<open>
  Claim C10. In \<^verbatim>\<open>_HyprlandCursor.__init__\<close> the branch guarded by
  \<^verbatim>\<open>self._socket_path is None\<close> is never taken: the attribute starts as the empty
  string and is only replaced by a candidate path, so it is never \<^verbatim>\<open>None\<close>. When no
  candidate file exists, the constructor goes on to the smoke test with the empty
  path, and its outcome is the outcome of \<^verbatim>\<open>_get_pos\<close> there: where connecting to the
  empty path fails, construction fails with that error of the socket call.
\<close>

theorem hyprland_socket_guard_unreachable:
  "snd (hyprland_init_trace w) = False
   \<and> find_socket (path_exists w) (Some []) cs \<noteq> None
   \<and> (environ w ''HYPRLAND_INSTANCE_SIGNATURE'' = Some sig
        \<and> list_all (\<lambda>p. \<not> path_exists w p) (hyprland_candidates (runtime_dir w) sig)
      \<longrightarrow> hyprland_init w
            = (case get_pos w [] of Inl e \<Rightarrow> Inl e | Inr r \<Rightarrow> Inr \<lparr>socket_path = []\<rparr>))
   \<and> (environ w ''HYPRLAND_INSTANCE_SIGNATURE'' = Some sig
        \<and> list_all (\<lambda>p. \<not> path_exists w p) (hyprland_candidates (runtime_dir w) sig)
        \<and> ipc_cursorpos w [] = Inl (SocketError err)
      \<longrightarrow> hyprland_init w = Inl (OSError err))"
  using hyprland_guard_not_taken[of w] find_socket_Some[of "path_exists w" "[]" cs]
    hyprland_init_no_candidate[of w sig] get_pos_socket_error[of w "[]" err]
  by simp

theorem hyprland_socket_guard_unreachable_witness:
  "environ bare_wayland ''HYPRLAND_INSTANCE_SIGNATURE'' = Some ''abc''
   \<and> list_all (\<lambda>p. \<not> path_exists bare_wayland p)
        (hyprland_candidates (runtime_dir bare_wayland) ''abc'')
   \<and> ipc_cursorpos bare_wayland [] = Inl (SocketError FileNotFoundError)
   \<and> hyprland_init bare_wayland = Inl (OSError FileNotFoundError)
   \<and> snd (hyprland_init_trace bare_wayland) = False"
proof -
  have a: "environ bare_wayland ''HYPRLAND_INSTANCE_SIGNATURE'' = Some ''abc''"
    by (simp add: bare_wayland_def)
  have b: "list_all (\<lambda>p. \<not> path_exists bare_wayland p)
        (hyprland_candidates (runtime_dir bare_wayland) ''abc'')"
    by (simp add: bare_wayland_def hyprland_candidates_def)
  have c: "ipc_cursorpos bare_wayland [] = Inl (SocketError FileNotFoundError)"
    by (simp add: bare_wayland_def)
  from hyprland_socket_guard_unreachable[of bare_wayland "[]" "''abc''" FileNotFoundError] a b c
  show ?thesis by blast
qed

section \<open>Stale precise readings\<close>

lemma hypot_3_4: "hypot 3 4 = 5"
  by (simp add: hypot_def real_sqrt_unique)

lemma hypot_6_8: "hypot 6 8 = 10"
  by (simp add: hypot_def real_sqrt_unique)

lemma read_mice_left10: "read_mice [packet_left10] = (-10, 0, False)"
  by (simp add: read_mice_def packet_left10_def)

lemma read_mice_right10: "read_mice [packet_right10] = (10, 0, False)"
  by (simp add: read_mice_def packet_right10_def)

lemma read_mice_3_4: "read_mice [packet_3_4] = (3, 4, False)"
  by (simp add: read_mice_def packet_3_4_def)

lemma fuse_stale:
  assumes "real_of_int rx = last_x11_x h" and "real_of_int ry = last_x11_y h"
  shows "fst (fuse h raw_dx raw_dy mice_btn rx ry m) =
     (if raw_dx \<noteq> 0 \<or> raw_dy \<noteq> 0 then
        h\<lparr>hyb_x := max 0 (min (screen_w h - 1) (hyb_x h + real_of_int raw_dx * sensitivity h)),
          hyb_y := max 0 (min (screen_h h - 1) (hyb_y h + real_of_int raw_dy * sensitivity h))\<rparr>
      else h)"
  using assms by (simp add: fuse_def Let_def)

lemma fuse_fresh:
  assumes "real_of_int rx \<noteq> last_x11_x h \<or> real_of_int ry \<noteq> last_x11_y h"
  shows "fst (fuse h raw_dx raw_dy mice_btn rx ry m) =
     h\<lparr>hyb_x := real_of_int rx, hyb_y := real_of_int ry,
       last_x11_x := real_of_int rx, last_x11_y := real_of_int ry,
       sensitivity :=
         (if hypot (real_of_int raw_dx) (real_of_int raw_dy) > 3 then
            0.85 * sensitivity h
            + 0.15 * (hypot (real_of_int rx - last_x11_x h) (real_of_int ry - last_x11_y h)
                      / hypot (real_of_int raw_dx) (real_of_int raw_dy))
          else sensitivity h)\<rparr>"
  using assms by (auto simp add: fuse_def Let_def)

lemma hypot_zero: "hypot 0 0 = 0" by (simp add: hypot_def)

lemma hybrid_query_fuse:
  "read_mice pending = (raw_dx, raw_dy, btn) \<Longrightarrow>
   hybrid_query h pending rx ry m = fuse h raw_dx raw_dy btn rx ry m"
  by (simp add: hybrid_query_def)


lemma stays_inside_cong:
  "sensitivity h1 = sensitivity h \<Longrightarrow> screen_w h1 = screen_w h \<Longrightarrow> screen_h h1 = screen_h h
   \<Longrightarrow> stays_inside h1 px py steps = stays_inside h px py steps"
  by (induction steps arbitrary: px py) (simp_all add: Let_def)

lemma all_stale_cong:
  "last_x11_x h1 = last_x11_x h \<Longrightarrow> last_x11_y h1 = last_x11_y h
   \<Longrightarrow> all_stale h1 steps = all_stale h steps"
  by (simp add: all_stale_def)

lemma hybrid_query_stale_step:
  assumes "real_of_int rx = last_x11_x h" and "real_of_int ry = last_x11_y h"
  shows "fst (hybrid_query h pending rx ry m) =
     (if raw_dx_of (pending, rx, ry, m) \<noteq> 0 \<or> raw_dy_of (pending, rx, ry, m) \<noteq> 0 then
        h\<lparr>hyb_x := max 0 (min (screen_w h - 1)
                    (hyb_x h + real_of_int (raw_dx_of (pending, rx, ry, m)) * sensitivity h)),
          hyb_y := max 0 (min (screen_h h - 1)
                    (hyb_y h + real_of_int (raw_dy_of (pending, rx, ry, m)) * sensitivity h))\<rparr>
      else h)"
proof -
  obtain dx dy b where r: "read_mice pending = (dx, dy, b)"
    by (cases "read_mice pending") auto
  show ?thesis
    using fuse_stale[OF assms, of dx dy b m] r
    by (simp add: hybrid_query_def raw_dx_of_def raw_dy_of_def)
qed

lemma stale_step_inside:
  assumes st: "real_of_int rx = last_x11_x h" "real_of_int ry = last_x11_y h"
    and px: "px' = hyb_x h + real_of_int (raw_dx_of (pending, rx, ry, m)) * sensitivity h"
    and py: "py' = hyb_y h + real_of_int (raw_dy_of (pending, rx, ry, m)) * sensitivity h"
    and inside: "0 \<le> px'" "px' \<le> screen_w h - 1" "0 \<le> py'" "py' \<le> screen_h h - 1"
  shows "fst (hybrid_query h pending rx ry m) = h\<lparr>hyb_x := px', hyb_y := py'\<rparr>"
  using inside unfolding hybrid_query_stale_step[OF st] px py
  by (simp add: max_def min_def)

lemma query_all_stale_inside:
  "all_stale h steps \<Longrightarrow> stays_inside h (hyb_x h) (hyb_y h) steps \<Longrightarrow>
   hyb_x (query_all h steps)
     = hyb_x h + real_of_int (sum_list (map raw_dx_of steps)) * sensitivity h
   \<and> hyb_y (query_all h steps)
     = hyb_y h + real_of_int (sum_list (map raw_dy_of steps)) * sensitivity h
   \<and> sensitivity (query_all h steps) = sensitivity h"
proof (induction steps arbitrary: h)
  case Nil
  show ?case by simp
next
  case (Cons step rest)
  obtain pending rx ry m where step: "step = (pending, rx, ry, m)"
    by (cases step) auto
  define px' where "px' = hyb_x h + real_of_int (raw_dx_of step) * sensitivity h"
  define py' where "py' = hyb_y h + real_of_int (raw_dy_of step) * sensitivity h"
  define h1 where "h1 = h\<lparr>hyb_x := px', hyb_y := py'\<rparr>"
  from Cons.prems(1) have st: "real_of_int rx = last_x11_x h" "real_of_int ry = last_x11_y h"
    and rest_stale: "all_stale h rest"
    by (simp_all add: all_stale_def step)
  from Cons.prems(2) have inside: "0 \<le> px'" "px' \<le> screen_w h - 1" "0 \<le> py'"
      "py' \<le> screen_h h - 1"
    and rest_inside: "stays_inside h px' py' rest"
    by (simp_all add: Let_def px'_def py'_def)
  have q: "fst (hybrid_query h pending rx ry m) = h1"
    unfolding h1_def
    by (rule stale_step_inside[OF st _ _ inside]) (simp_all add: px'_def py'_def step)
  have a: "all_stale h1 rest"
    using rest_stale all_stale_cong[of h1 h rest] by (simp add: h1_def)
  have b: "stays_inside h1 (hyb_x h1) (hyb_y h1) rest"
    using rest_inside stays_inside_cong[of h1 h px' py' rest] by (simp add: h1_def)
  have "query_all h (step # rest) = query_all h1 rest"
    by (simp add: step q)
  with Cons.IH[OF a b] show ?case
    by (simp add: h1_def px'_def py'_def algebra_simps)
qed

lemma read_mice_none: "read_mice [] = (0, 0, False)"
  by (simp add: read_mice_def)

lemma bounce_steps_result: "hyb_x (query_all hybrid_at_origin bounce_steps) = 10"
  by (simp add: bounce_steps_def hybrid_query_def read_mice_left10 read_mice_right10
      fuse_def hybrid_at_origin_def)

lemma bounce_steps_sum: "sum_list (map raw_dx_of bounce_steps) = 0"
  by (simp add: bounce_steps_def raw_dx_of_def read_mice_left10 read_mice_right10)

text \<open>
  The position after a run of stale queries is clamped at every query, not once at the
  end: from the origin, ten counts left and then ten counts right end at \<open>x = 10\<close>,
  while the seed plus the summed deltas, clamped, is \<open>0\<close>. And a stale query whose raw
  delta is zero leaves the position as it is, also outside the bounds.
\<close>

theorem hybrid_stale_counterexample:
  "all_stale hybrid_at_origin bounce_steps
   \<and> hyb_x (query_all hybrid_at_origin bounce_steps) = 10
   \<and> max 0 (min (screen_w hybrid_at_origin - 1)
        (hyb_x hybrid_at_origin
         + real_of_int (sum_list (map raw_dx_of bounce_steps)) * sensitivity hybrid_at_origin)) = 0
   \<and> real_of_int 150 = last_x11_x hybrid_off_screen
   \<and> real_of_int 20 = last_x11_y hybrid_off_screen
   \<and> read_mice [] = (0, 0, False)
   \<and> hyb_x (fst (hybrid_query hybrid_off_screen [] 150 20 0)) = 150
   \<and> max 0 (min (screen_w hybrid_off_screen - 1)
        (hyb_x hybrid_off_screen + real_of_int 0 * sensitivity hybrid_off_screen)) = 99"
  unfolding bounce_steps_result bounce_steps_sum read_mice_none
  by (simp add: all_stale_def bounce_steps_def hybrid_at_origin_def hybrid_off_screen_def
      hybrid_query_def read_mice_none fuse_def)

text \<open>
  Claim C2, as amended. In a query whose precise reading equals the previous one, a raw
  delta that is not zero advances the fused position by the raw delta times the
  sensitivity and clamps both coordinates to the display bounds; a raw delta of zero
  leaves the tracker unchanged. Over a run of such queries in which no position obtained
  by adding the deltas leaves the bounds, the fused position is the seed plus the sum of
  the raw deltas times the sensitivity, and the sensitivity does not change.
\<close>

theorem hybrid_query_stale:
  "(real_of_int rx = last_x11_x h \<and> real_of_int ry = last_x11_y h
      \<and> read_mice pending = (raw_dx, raw_dy, mice_btn) \<and> (raw_dx \<noteq> 0 \<or> raw_dy \<noteq> 0)
    \<longrightarrow> fst (hybrid_query h pending rx ry m)
          = h\<lparr>hyb_x := max 0 (min (screen_w h - 1) (hyb_x h + real_of_int raw_dx * sensitivity h)),
              hyb_y := max 0 (min (screen_h h - 1) (hyb_y h + real_of_int raw_dy * sensitivity h))\<rparr>)
   \<and> (real_of_int rx = last_x11_x h \<and> real_of_int ry = last_x11_y h
      \<and> read_mice pending = (0, 0, mice_btn)
    \<longrightarrow> fst (hybrid_query h pending rx ry m) = h)
   \<and> (all_stale h steps \<and> stays_inside h (hyb_x h) (hyb_y h) steps
    \<longrightarrow> hyb_x (query_all h steps)
          = hyb_x h + real_of_int (sum_list (map raw_dx_of steps)) * sensitivity h
        \<and> hyb_y (query_all h steps)
          = hyb_y h + real_of_int (sum_list (map raw_dy_of steps)) * sensitivity h
        \<and> sensitivity (query_all h steps) = sensitivity h)"
proof (intro conjI impI)
  assume a: "real_of_int rx = last_x11_x h \<and> real_of_int ry = last_x11_y h
      \<and> read_mice pending = (raw_dx, raw_dy, mice_btn) \<and> (raw_dx \<noteq> 0 \<or> raw_dy \<noteq> 0)"
  then show "fst (hybrid_query h pending rx ry m)
          = h\<lparr>hyb_x := max 0 (min (screen_w h - 1) (hyb_x h + real_of_int raw_dx * sensitivity h)),
              hyb_y := max 0 (min (screen_h h - 1) (hyb_y h + real_of_int raw_dy * sensitivity h))\<rparr>"
    using fuse_stale[of rx h ry raw_dx raw_dy mice_btn m] by (simp add: hybrid_query_def)
next
  assume "real_of_int rx = last_x11_x h \<and> real_of_int ry = last_x11_y h
      \<and> read_mice pending = (0, 0, mice_btn)"
  then show "fst (hybrid_query h pending rx ry m) = h"
    using fuse_stale[of rx h ry 0 0 mice_btn m] by (simp add: hybrid_query_def)
next
  assume a: "all_stale h steps \<and> stays_inside h (hyb_x h) (hyb_y h) steps"
  with query_all_stale_inside[of h steps]
  show "hyb_x (query_all h steps)
          = hyb_x h + real_of_int (sum_list (map raw_dx_of steps)) * sensitivity h" by simp
  from a query_all_stale_inside[of h steps]
  show "hyb_y (query_all h steps)
          = hyb_y h + real_of_int (sum_list (map raw_dy_of steps)) * sensitivity h" by simp
  from a query_all_stale_inside[of h steps]
  show "sensitivity (query_all h steps) = sensitivity h" by simp
qed

lemma sweep_raw:
  "map raw_dx_of sweep_steps = [10, 3]" "map raw_dy_of sweep_steps = [0, 4]"
  by (simp_all add: sweep_steps_def raw_dx_of_def raw_dy_of_def read_mice_right10 read_mice_3_4)

theorem hybrid_query_stale_witness:
  "all_stale hybrid_at_origin sweep_steps
   \<and> stays_inside hybrid_at_origin (hyb_x hybrid_at_origin) (hyb_y hybrid_at_origin) sweep_steps
   \<and> hyb_x (query_all hybrid_at_origin sweep_steps) = 13
   \<and> hyb_y (query_all hybrid_at_origin sweep_steps) = 4
   \<and> real_of_int 0 = last_x11_x hybrid_at_origin
   \<and> real_of_int 0 = last_x11_y hybrid_at_origin
   \<and> read_mice [packet_left10] = (-10, 0, False)
   \<and> hyb_x (fst (hybrid_query hybrid_at_origin [packet_left10] 0 0 0)) = 0
   \<and> read_mice [] = (0, 0, False)
   \<and> fst (hybrid_query hybrid_at_origin [] 0 0 0) = hybrid_at_origin"
proof -
  have a: "all_stale hybrid_at_origin sweep_steps"
    by (simp add: all_stale_def sweep_steps_def hybrid_at_origin_def)
  have b: "stays_inside hybrid_at_origin (hyb_x hybrid_at_origin) (hyb_y hybrid_at_origin)
      sweep_steps"
    by (simp add: sweep_steps_def raw_dx_of_def raw_dy_of_def read_mice_right10 read_mice_3_4
        hybrid_at_origin_def)
  have c: "real_of_int 0 = last_x11_x hybrid_at_origin"
    "real_of_int 0 = last_x11_y hybrid_at_origin"
    by (simp_all add: hybrid_at_origin_def)
  have d: "hyb_x hybrid_at_origin = 0" "hyb_y hybrid_at_origin = 0"
    "sensitivity hybrid_at_origin = 1" "screen_w hybrid_at_origin = 100"
    by (simp_all add: hybrid_at_origin_def)
  from hybrid_query_stale[where rx = 0 and ry = 0 and h = hybrid_at_origin
      and pending = "[packet_left10]" and raw_dx = "-10" and raw_dy = 0 and mice_btn = False
      and m = 0 and steps = sweep_steps] a b c read_mice_left10
  have 1: "hyb_x (query_all hybrid_at_origin sweep_steps) = 13"
    "hyb_y (query_all hybrid_at_origin sweep_steps) = 4"
    "hyb_x (fst (hybrid_query hybrid_at_origin [packet_left10] 0 0 0)) = 0"
    by (simp_all add: sweep_raw d)
  from hybrid_query_stale[where rx = 0 and ry = 0 and h = hybrid_at_origin
      and pending = "[]" and raw_dx = 0 and raw_dy = 0 and mice_btn = False
      and m = 0 and steps = "[]"] c read_mice_none
  have 2: "fst (hybrid_query hybrid_at_origin [] 0 0 0) = hybrid_at_origin"
    by simp
  from a b c 1 2 read_mice_left10 read_mice_none show ?thesis by simp
qed

section \<open>Fresh precise readings\<close>

text \<open>
  Claim C3. In a query whose precise reading differs from the previous one, the fused
  position and the remembered reading both become the precise reading. The sensitivity
  becomes \<open>0.85 * sensitivity + 0.15 * (|precise delta| / |raw delta|)\<close> when the raw
  magnitude exceeds the noise floor 3, and keeps its value otherwise; so a raw delta of
  zero never changes it, and the quotient is only formed with a divisor above 3.
\<close>

theorem hybrid_query_fresh:
  assumes "read_mice pending = (raw_dx, raw_dy, mice_btn)"
    and "real_of_int rx \<noteq> last_x11_x h \<or> real_of_int ry \<noteq> last_x11_y h"
  shows "hyb_x (fst (hybrid_query h pending rx ry m)) = real_of_int rx
   \<and> hyb_y (fst (hybrid_query h pending rx ry m)) = real_of_int ry
   \<and> fst (snd (hybrid_query h pending rx ry m)) = real_of_int rx
   \<and> fst (snd (snd (hybrid_query h pending rx ry m))) = real_of_int ry
   \<and> last_x11_x (fst (hybrid_query h pending rx ry m)) = real_of_int rx
   \<and> last_x11_y (fst (hybrid_query h pending rx ry m)) = real_of_int ry
   \<and> (hypot (real_of_int raw_dx) (real_of_int raw_dy) > 3 \<longrightarrow>
        sensitivity (fst (hybrid_query h pending rx ry m))
        = 0.85 * sensitivity h
          + 0.15 * (hypot (real_of_int rx - last_x11_x h) (real_of_int ry - last_x11_y h)
                    / hypot (real_of_int raw_dx) (real_of_int raw_dy)))
   \<and> (hypot (real_of_int raw_dx) (real_of_int raw_dy) \<le> 3 \<longrightarrow>
        sensitivity (fst (hybrid_query h pending rx ry m)) = sensitivity h)
   \<and> (raw_dx = 0 \<and> raw_dy = 0 \<longrightarrow>
        sensitivity (fst (hybrid_query h pending rx ry m)) = sensitivity h)"
proof -
  have q: "hybrid_query h pending rx ry m = fuse h raw_dx raw_dy mice_btn rx ry m"
    using assms(1) by (simp add: hybrid_query_def)
  have s: "snd (fuse h raw_dx raw_dy mice_btn rx ry m)
     = (hyb_x (fst (fuse h raw_dx raw_dy mice_btn rx ry m)),
        hyb_y (fst (fuse h raw_dx raw_dy mice_btn rx ry m)),
        (m AND push_bit 8 1 \<noteq> 0) \<or> mice_btn)"
    by (simp add: fuse_def Let_def)
  show ?thesis
    unfolding q s fuse_fresh[OF assms(2)]
    by (simp add: hypot_zero)
qed

theorem hybrid_query_fresh_witness:
  "read_mice [packet_3_4] = (3, 4, False)
   \<and> real_of_int 6 \<noteq> last_x11_x hybrid_at_origin
   \<and> hyb_x (fst (hybrid_query hybrid_at_origin [packet_3_4] 6 8 0)) = 6
   \<and> hyb_y (fst (hybrid_query hybrid_at_origin [packet_3_4] 6 8 0)) = 8
   \<and> hypot (real_of_int 3) (real_of_int 4) > 3
   \<and> sensitivity (fst (hybrid_query hybrid_at_origin [packet_3_4] 6 8 0)) = 23 / 20
   \<and> read_mice [] = (0, 0, False)
   \<and> hypot (real_of_int 0) (real_of_int 0) \<le> 3
   \<and> hyb_x (fst (hybrid_query hybrid_at_origin [] 6 8 0)) = 6
   \<and> sensitivity (fst (hybrid_query hybrid_at_origin [] 6 8 0)) = sensitivity hybrid_at_origin"
proof -
  have a: "real_of_int 6 \<noteq> last_x11_x hybrid_at_origin"
    "last_x11_x hybrid_at_origin = 0" "last_x11_y hybrid_at_origin = 0"
    "sensitivity hybrid_at_origin = 1"
    by (simp_all add: hybrid_at_origin_def)
  have b: "hypot (real_of_int 3) (real_of_int 4) = 5" "hypot (real_of_int 6) (real_of_int 8) = 10"
    "hypot (real_of_int 0) (real_of_int 0) = 0"
    using hypot_3_4 hypot_6_8 hypot_zero by simp_all
  from hybrid_query_fresh[where pending = "[packet_3_4]" and raw_dx = 3 and raw_dy = 4
      and mice_btn = False and rx = 6 and ry = 8 and h = hybrid_at_origin and m = 0]
    read_mice_3_4 a(1)
  have 1: "hyb_x (fst (hybrid_query hybrid_at_origin [packet_3_4] 6 8 0)) = 6
    \<and> hyb_y (fst (hybrid_query hybrid_at_origin [packet_3_4] 6 8 0)) = 8
    \<and> sensitivity (fst (hybrid_query hybrid_at_origin [packet_3_4] 6 8 0)) = 23 / 20"
    by (simp add: a hypot_3_4 hypot_6_8)
  from hybrid_query_fresh[where pending = "[]" and raw_dx = 0 and raw_dy = 0
      and mice_btn = False and rx = 6 and ry = 8 and h = hybrid_at_origin and m = 0]
    read_mice_none a(1)
  have 2: "hyb_x (fst (hybrid_query hybrid_at_origin [] 6 8 0)) = 6
    \<and> sensitivity (fst (hybrid_query hybrid_at_origin [] 6 8 0)) = sensitivity hybrid_at_origin"
    by simp
  from 1 2 read_mice_3_4 read_mice_none a(1) b show ?thesis by simp
qed

section \<open>The pressed flag of each backend\<close>

lemma read_mice_loop_btn:
  "list_all (\<lambda>d. length d = 3) pending \<Longrightarrow>
   snd (snd (read_mice_loop pending dx dy b))
   = (if pending = [] then b else bit (last pending ! 0) 0)"
proof (induction pending arbitrary: dx dy b)
  case Nil
  show ?case by simp
next
  case (Cons d rest)
  then show ?case
    by (cases rest) (simp_all add: Let_def bit_0 and_one_eq odd_iff_mod_2_eq_one)
qed

text \<open>
  The Qt fallback reports a press while only the right, or only the middle, button is
  held.
\<close>

theorem qt_pressed_counterexample:
  "snd (snd (qt_query 0 0 RightButton)) = True \<and> RightButton AND LeftButton = 0
   \<and> snd (snd (qt_query 0 0 MiddleButton)) = True \<and> MiddleButton AND LeftButton = 0"
  by (simp add: qt_query_def RightButton_def LeftButton_def MiddleButton_def NoButton_def)

text \<open>
  Claim C9, as amended. The pressed flag is the primary-button bit alone for the X11
  backend (bit 8 of the mask), the Win32 backend (bit 15 of the state of
  \<^verbatim>\<open>VK_LBUTTON\<close>) and the GNOME backend (bit 8 of the modifiers, false when the query
  fails); it is always false for the Hyprland and KDE backends; for the hybrid backend
  it is the X11 primary-button bit or the left-button bit of the last packet read in
  this query; for the Qt fallback it is true exactly when any button is held.
\<close>

theorem pressed_flag_by_backend:
  "snd (snd (x11_query root_x root_y mask_value)) = bit mask_value 8
   \<and> snd (snd (win32_query pt_x pt_y key_state)) = bit (key_state VK_LBUTTON) 15
   \<and> snd (snd (gnome_query (Inr (gx, gy, mods)))) = bit mods 8
   \<and> snd (snd (gnome_query (Inl e))) = False
   \<and> snd (snd (hyprland_query w hc)) = False
   \<and> snd (snd (kde_query parent_x parent_y)) = False
   \<and> snd (snd (snd (hybrid_query h pending rx ry mask_value)))
       = (bit mask_value 8 \<or> snd (snd (read_mice pending)))
   \<and> (pending \<noteq> [] \<and> list_all (\<lambda>d. length d = 3) pending \<longrightarrow>
        snd (snd (read_mice pending)) = bit (last pending ! 0) 0)
   \<and> snd (snd (read_mice [])) = False
   \<and> snd (snd (qt_query pos_x pos_y buttons)) = (buttons \<noteq> NoButton)"
proof -
  have x11: "snd (snd (x11_query root_x root_y mask_value)) = bit mask_value 8"
    by (simp add: x11_query_def bit_iff_and_push_bit_not_eq_0)
  have win: "snd (snd (win32_query pt_x pt_y key_state)) = bit (key_state VK_LBUTTON) 15"
    by (simp add: win32_query_def bit_iff_and_push_bit_not_eq_0)
  have gn: "snd (snd (gnome_query (Inr (gx, gy, mods)))) = bit mods 8"
    "snd (snd (gnome_query (Inl e))) = False"
    by (simp_all add: gnome_query_def bit_iff_and_push_bit_not_eq_0)
  have hy: "snd (snd (hyprland_query w hc)) = False"
    by (simp add: hyprland_query_def split: sum.splits)
  have kd: "snd (snd (kde_query parent_x parent_y)) = False"
    by (simp add: kde_query_def)
  have hb: "snd (snd (snd (hybrid_query h pending rx ry mask_value)))
       = (bit mask_value 8 \<or> snd (snd (read_mice pending)))"
    by (cases "read_mice pending")
      (simp add: hybrid_query_def fuse_def Let_def bit_iff_and_push_bit_not_eq_0)
  have rm: "pending \<noteq> [] \<and> list_all (\<lambda>d. length d = 3) pending \<longrightarrow>
        snd (snd (read_mice pending)) = bit (last pending ! 0) 0"
    using read_mice_loop_btn[of pending 0 0 False] by (simp add: read_mice_def)
  have r0: "snd (snd (read_mice [])) = False"
    by (simp add: read_mice_def)
  have qt: "snd (snd (qt_query pos_x pos_y buttons)) = (buttons \<noteq> NoButton)"
    by (simp add: qt_query_def)
  from x11 win gn hy kd hb rm r0 qt show ?thesis by blast
qed

theorem pressed_flag_by_backend_witness:
  "snd (snd (x11_query 5 7 0x600)) = False
   \<and> snd (snd (x11_query 5 7 0x100)) = True
   \<and> [packet_3_4, [0x09, 0, 0]] \<noteq> []
   \<and> list_all (\<lambda>d. length d = 3) [packet_3_4, [0x09, 0, 0 :: 8 word]]
   \<and> snd (snd (snd (hybrid_query hybrid_at_origin [packet_3_4, [0x09, 0, 0]] 0 0 0x600))) = True
   \<and> snd (snd (qt_query 5 7 RightButton)) = True"
proof -
  have a: "[packet_3_4, [0x09, 0, 0 :: 8 word]] \<noteq> []"
    "list_all (\<lambda>d. length d = 3) [packet_3_4, [0x09, 0, 0 :: 8 word]]"
    by (simp_all add: packet_3_4_def)
  have b: "bit (0x600 :: 32 word) 8 = False" "bit (0x100 :: 32 word) 8 = True"
    "bit (0x09 :: 8 word) 0 = True"
    by (simp_all add: bit_iff_and_push_bit_not_eq_0)
  note t1 = pressed_flag_by_backend[where root_x = 5 and root_y = 7 and mask_value = "0x600"
      and pending = "[packet_3_4, [0x09, 0, 0]]" and h = hybrid_at_origin and rx = 0 and ry = 0
      and pos_x = 5 and pos_y = 7 and buttons = RightButton]
  note t2 = pressed_flag_by_backend[where root_x = 5 and root_y = 7 and mask_value = "0x100"]
  have c: "RightButton \<noteq> NoButton"
    by (simp add: RightButton_def NoButton_def)
  from t1 t2 a b c show ?thesis by simp
qed

section \<open>State and flags through the handlers\<close>

lemma hypot_nonneg: "0 \<le> hypot a b"
  by (simp add: hypot_def)

lemma hypot_x_0: "hypot a 0 = \<bar>a\<bar>"
  by (simp add: hypot_def)

lemma state_move_toward: "state (move_toward p dx dy d speed) = state p"
  by (simp add: move_toward_def)

lemma state_pick_wander_target: "state (fst (pick_wander_target cfg p now g)) = state p"
  by (simp add: pick_wander_target_def uniform_def randint_def)

lemma state_init_wander: "state (fst (init_wander cfg p now g)) = state p"
  by (simp add: init_wander_def randint_def state_pick_wander_target)

lemma state_init_idle: "state (fst (init_idle p now g)) = state p"
  by (simp add: init_idle_def randint_def Let_def case_prod_beta)

lemma state_update_mouse: "state (update_mouse cfg p mx my b now) = state p"
  by (simp add: update_mouse_def Let_def)

lemma state_handle_chasing:
  "state p = CHASING \<Longrightarrow>
   state (fst (handle_chasing cfg p dx dy d now g)) = (if d < NEAR_DISTANCE cfg then WANDERING else CHASING)"
  by (simp add: handle_chasing_def state_init_wander state_move_toward)

lemma state_handle_wandering:
  "state p = WANDERING \<Longrightarrow>
   state (fst (handle_wandering cfg p dx dy d now g))
   = (if d > FAR_DISTANCE cfg \<and> \<not> seal_active p then CHASING
      else if now > wander_end_time p then IDLING else WANDERING)"
  by (simp add: handle_wandering_def state_init_idle state_pick_wander_target
      state_move_toward Let_def case_prod_beta)


lemma tick_not_pressed:
  "\<not> mouse_pressed p \<Longrightarrow> state p \<noteq> DRAGGING \<Longrightarrow> drag_detection p = p"
  by (simp add: drag_detection_def)

lemma tick_chasing:
  "\<not> mouse_pressed p \<Longrightarrow> state p = CHASING \<Longrightarrow>
   state (fst (tick cfg p now g)) = (if tick_dist p < NEAR_DISTANCE cfg then WANDERING else CHASING)"
  by (simp add: tick_def tick_dist_def drag_detection_def Let_def case_prod_beta
      state_handle_chasing)

lemma tick_wandering:
  "\<not> mouse_pressed p \<Longrightarrow> state p = WANDERING \<Longrightarrow>
   state (fst (tick cfg p now g))
   = (if tick_dist p > FAR_DISTANCE cfg \<and> \<not> seal_active p then CHASING
      else if now > wander_end_time p then IDLING else WANDERING)"
  by (simp add: tick_def tick_dist_def drag_detection_def Let_def case_prod_beta
      state_handle_wandering)

lemma tick_pressed:
  "mouse_pressed p \<Longrightarrow> state p \<noteq> DRAGGING \<Longrightarrow>
   tick cfg p now g
   = (p\<lparr>prev_state := state p, state := DRAGGING, current_gif := GIF_DRAG, flipped := False\<rparr>, g)"
  by (simp add: tick_def drag_detection_def Let_def case_prod_beta handle_dragging_def)

lemma tick_released:
  "\<not> mouse_pressed p \<Longrightarrow> state p = DRAGGING \<Longrightarrow>
   tick cfg p now g = tick cfg (p\<lparr>state := prev_state p\<rparr>) now g"
  by (simp add: tick_def drag_detection_def Let_def)

lemma tick_dist_released:
  "\<not> mouse_pressed p \<Longrightarrow> state p = DRAGGING \<Longrightarrow>
   tick_dist p = tick_dist (p\<lparr>state := prev_state p\<rparr>)"
  by (simp add: tick_dist_def drag_detection_def Let_def)

lemma chasing_to_wandering:
  assumes "state p = CHASING" and "state (fst (tick cfg p now g)) = WANDERING"
  shows "tick_dist p < NEAR_DISTANCE cfg"
proof (cases "mouse_pressed p")
  case True
  with assms show ?thesis by (simp add: tick_pressed)
next
  case False
  with assms tick_chasing[of p cfg now g] show ?thesis
    by (simp split: if_splits)
qed

lemma wandering_to_chasing:
  assumes "state p = WANDERING" and "state (fst (tick cfg p now g)) = CHASING"
  shows "tick_dist p > FAR_DISTANCE cfg \<and> \<not> seal_active p"
proof (cases "mouse_pressed p")
  case True
  with assms show ?thesis by (simp add: tick_pressed)
next
  case False
  with assms tick_wandering[of p cfg now g] show ?thesis
    by (simp split: if_splits)
qed

lemma no_flip_in_band:
  assumes "NEAR_DISTANCE cfg < step_dist cfg p inp" and "step_dist cfg p inp < FAR_DISTANCE cfg"
  shows "\<not> is_flip (state p) (state (fst (pet_step cfg p g inp)))"
proof -
  obtain mx my b now where inp: "inp = (mx, my, b, now)"
    by (cases inp) auto
  let ?q = "update_mouse cfg p mx my b now"
  have s: "state ?q = state p" by (rule state_update_mouse)
  have d: "NEAR_DISTANCE cfg < tick_dist ?q" "tick_dist ?q < FAR_DISTANCE cfg"
    using assms by (simp_all add: step_dist_def inp)
  show ?thesis
    using chasing_to_wandering[of ?q cfg now g] wandering_to_chasing[of ?q cfg now g] d s
    by (auto simp: is_flip_def pet_step_def inp)
qed

lemma in_band_no_flip_flops: "in_band cfg p g inps \<Longrightarrow> flip_flops cfg p g inps = 0"
proof (induction inps arbitrary: p g)
  case Nil
  show ?case by simp
next
  case (Cons inp rest)
  obtain p' g' where st: "pet_step cfg p g inp = (p', g')"
    by (cases "pet_step cfg p g inp") auto
  from Cons.prems have band: "NEAR_DISTANCE cfg < step_dist cfg p inp"
      "step_dist cfg p inp < FAR_DISTANCE cfg" and rest: "in_band cfg p' g' rest"
    by (simp_all add: st)
  from no_flip_in_band[OF band, of g] have "\<not> is_flip (state p) (state p')"
    by (simp add: st)
  with Cons.IH[OF rest] show ?case
    by (simp add: st)
qed

section \<open>Hysteresis\<close>

lemmas frame_defs = pet_step_def step_dist_def update_mouse_def tick_def tick_dist_def
  drag_detection_def choose_target_def handle_chasing_def handle_dragging_def move_toward_def
  Let_def hypot_x_0

lemmas rng_defs = uniform_def randint_def random_def choice_def rng_rest_def no_draws_def

lemmas eval_defs = frame_defs pet_init_def base_config_def init_wander_def
  pick_wander_target_def handle_wandering_def rng_defs

lemma osc_band: "in_band base_config (pet_init base_config 0 0) no_draws oscillating_inputs"
  by (simp add: oscillating_inputs_def frame_defs pet_init_def base_config_def)

text \<open>
  Claim C6. A tick takes the pet from \<open>CHASING\<close> to \<open>WANDERING\<close> only when the target
  distance of that tick is below \<^verbatim>\<open>NEAR_DISTANCE\<close>, and from \<open>WANDERING\<close> to \<open>CHASING\<close>
  only when it is above \<^verbatim>\<open>FAR_DISTANCE\<close> and no seal is active. Hence a run of frames
  whose target distance stays strictly between the two thresholds, which are 80 and 250
  in the base configuration, contains no frame that flips between the two states.
\<close>

theorem hysteresis_no_flip_flop:
  "(state p = CHASING \<and> state (fst (tick cfg p now g)) = WANDERING
      \<longrightarrow> tick_dist p < NEAR_DISTANCE cfg)
   \<and> (state p = WANDERING \<and> state (fst (tick cfg p now g)) = CHASING
      \<longrightarrow> tick_dist p > FAR_DISTANCE cfg \<and> \<not> seal_active p)
   \<and> (in_band cfg q g' inps \<longrightarrow> flip_flops cfg q g' inps = 0)
   \<and> NEAR_DISTANCE base_config = 80 \<and> FAR_DISTANCE base_config = 250"
  using chasing_to_wandering[of p cfg now g] wandering_to_chasing[of p cfg now g]
    in_band_no_flip_flops[of cfg q g' inps]
  by (simp add: base_config_def)

theorem hysteresis_no_flip_flop_witness:
  "in_band base_config (pet_init base_config 0 0) no_draws oscillating_inputs
   \<and> flip_flops base_config (pet_init base_config 0 0) no_draws oscillating_inputs = 0
   \<and> step_dist base_config (pet_init base_config 0 0) (90, 0, False, 33) = 90
   \<and> state (pet_init base_config 0 0) = CHASING
   \<and> state (fst (tick base_config (pet_init base_config 0 0) 0 no_draws)) = WANDERING
   \<and> tick_dist (pet_init base_config 0 0) < NEAR_DISTANCE base_config
   \<and> state far_wandering_pet = WANDERING
   \<and> state (fst (tick base_config far_wandering_pet 1000 no_draws)) = CHASING
   \<and> tick_dist far_wandering_pet > FAR_DISTANCE base_config
   \<and> \<not> seal_active far_wandering_pet"
proof -
  have d: "step_dist base_config (pet_init base_config 0 0) (90, 0, False, 33) = 90"
    by (simp add: frame_defs pet_init_def base_config_def)
  have c: "state (pet_init base_config 0 0) = CHASING"
    "state (fst (tick base_config (pet_init base_config 0 0) 0 no_draws)) = WANDERING"
    by (simp_all add: eval_defs)
  have w: "state far_wandering_pet = WANDERING"
    "state (fst (tick base_config far_wandering_pet 1000 no_draws)) = CHASING"
    by (simp_all add: far_wandering_pet_def pressed_pet_def eval_defs)
  note h = hysteresis_no_flip_flop[where cfg = base_config and q = "pet_init base_config 0 0"
      and g' = no_draws and inps = oscillating_inputs and g = no_draws]
  from h[where p = "pet_init base_config 0 0" and now = 0] osc_band c
  have 1: "flip_flops base_config (pet_init base_config 0 0) no_draws oscillating_inputs = 0"
    "tick_dist (pet_init base_config 0 0) < NEAR_DISTANCE base_config"
    by simp_all
  from h[where p = far_wandering_pet and now = 1000] w
  have 2: "tick_dist far_wandering_pet > FAR_DISTANCE base_config"
    "\<not> seal_active far_wandering_pet"
    by simp_all
  from osc_band d c w 1 2 show ?thesis by simp
qed

section \<open>The drag interrupt\<close>

lemma tick_held:
  "mouse_pressed p \<Longrightarrow> state p = DRAGGING \<Longrightarrow>
   tick cfg p now g = (p\<lparr>current_gif := GIF_DRAG, flipped := False\<rparr>, g)"
  by (simp add: tick_def drag_detection_def Let_def case_prod_beta handle_dragging_def)

lemma update_mouse_keeps:
  "state (update_mouse cfg p mx my b now) = state p
   \<and> prev_state (update_mouse cfg p mx my b now) = prev_state p
   \<and> mouse_pressed (update_mouse cfg p mx my b now) = b
   \<and> wander_end_time (update_mouse cfg p mx my b now) = wander_end_time p"
  by (simp add: update_mouse_def Let_def)

lemma pet_step_press:
  assumes "state p \<noteq> DRAGGING"
  shows "state (fst (pet_step cfg p g (mx, my, True, now))) = DRAGGING
   \<and> prev_state (fst (pet_step cfg p g (mx, my, True, now))) = state p
   \<and> snd (pet_step cfg p g (mx, my, True, now)) = g"
  using assms update_mouse_keeps[of cfg p mx my True now]
  by (simp add: pet_step_def tick_pressed)

lemma pet_step_held:
  assumes "state p = DRAGGING"
  shows "state (fst (pet_step cfg p g (mx, my, True, now))) = DRAGGING
   \<and> prev_state (fst (pet_step cfg p g (mx, my, True, now))) = prev_state p
   \<and> snd (pet_step cfg p g (mx, my, True, now)) = g"
  using assms update_mouse_keeps[of cfg p mx my True now]
  by (simp add: pet_step_def tick_held)

lemma run_held:
  "state p = DRAGGING \<Longrightarrow> all_pressed inps \<Longrightarrow>
   state (fst (run cfg p g inps)) = DRAGGING
   \<and> prev_state (fst (run cfg p g inps)) = prev_state p
   \<and> snd (run cfg p g inps) = g"
proof (induction inps arbitrary: p)
  case Nil
  then show ?case by simp
next
  case (Cons inp rest)
  obtain mx my b now where inp: "inp = (mx, my, b, now)"
    by (cases inp) auto
  from Cons.prems(2) have b: "b" and rest: "all_pressed rest"
    by (simp_all add: all_pressed_def inp)
  obtain p' g' where st: "pet_step cfg p g (mx, my, True, now) = (p', g')"
    by (cases "pet_step cfg p g (mx, my, True, now)") auto
  from pet_step_held[OF Cons.prems(1), where cfg = cfg and g = g and mx = mx and my = my and now = now] st
  have p': "state p' = DRAGGING" "prev_state p' = prev_state p" "g' = g"
    by simp_all
  from Cons.IH[OF p'(1) rest] p' st b show ?case
    by (simp add: inp)
qed

lemma run_pressed:
  assumes "state p \<noteq> DRAGGING" and "inps \<noteq> []" and "all_pressed inps"
  shows "state (fst (run cfg p g inps)) = DRAGGING
   \<and> prev_state (fst (run cfg p g inps)) = state p
   \<and> snd (run cfg p g inps) = g"
proof -
  obtain inp rest where l: "inps = inp # rest"
    using assms(2) by (cases inps) auto
  obtain mx my b now where inp: "inp = (mx, my, b, now)"
    by (cases inp) auto
  from assms(3) have b: "b" and rest: "all_pressed rest"
    by (simp_all add: all_pressed_def l inp)
  obtain p' g' where st: "pet_step cfg p g (mx, my, True, now) = (p', g')"
    by (cases "pet_step cfg p g (mx, my, True, now)") auto
  from pet_step_press[OF assms(1), where cfg = cfg and g = g and mx = mx and my = my and now = now] st
  have p': "state p' = DRAGGING" "prev_state p' = state p" "g' = g"
    by simp_all
  from run_held[OF p'(1) rest, where cfg = cfg and g = g] p' st b show ?thesis
    by (simp add: l inp)
qed

lemma run_append:
  "run cfg p g (xs @ ys) = (case run cfg p g xs of (p', g') \<Rightarrow> run cfg p' g' ys)"
  by (induction xs arbitrary: p g) (simp_all add: case_prod_beta)

lemma run_release:
  assumes "state p \<noteq> DRAGGING" and "inps \<noteq> []" and "all_pressed inps"
  shows "run cfg p g (inps @ [(mx, my, False, now)])
     = tick cfg ((update_mouse cfg (fst (run cfg p g inps)) mx my False now)
                   \<lparr>state := state p\<rparr>) now g"
proof -
  let ?q = "fst (run cfg p g inps)"
  let ?u = "update_mouse cfg ?q mx my False now"
  from run_pressed[OF assms, where cfg = cfg and g = g]
  have q: "state ?q = DRAGGING" "prev_state ?q = state p" "snd (run cfg p g inps) = g"
    by simp_all
  from update_mouse_keeps[of cfg ?q mx my False now] q
  have u: "state ?u = DRAGGING" "prev_state ?u = state p" "\<not> mouse_pressed ?u"
    by simp_all
  have "run cfg p g (inps @ [(mx, my, False, now)]) = tick cfg ?u now g"
    using q(3) by (simp add: run_append case_prod_beta pet_step_def)
  also have "\<dots> = tick cfg (?u\<lparr>state := state p\<rparr>) now g"
    using tick_released[of ?u cfg now g] u by simp
  finally show ?thesis .
qed

lemma run_release_wandering:
  assumes "state p = WANDERING" and "inps \<noteq> []" and "all_pressed inps"
  shows "state (fst (run cfg p g (inps @ [(mx, my, False, now)])))
     = (if tick_dist (update_mouse cfg (fst (run cfg p g inps)) mx my False now)
             > FAR_DISTANCE cfg
           \<and> \<not> seal_active (update_mouse cfg (fst (run cfg p g inps)) mx my False now)
        then CHASING
        else if now > wander_end_time (update_mouse cfg (fst (run cfg p g inps)) mx my False now)
        then IDLING else WANDERING)"
proof -
  let ?q = "fst (run cfg p g inps)"
  let ?u = "update_mouse cfg ?q mx my False now"
  have nd: "state p \<noteq> DRAGGING" using assms(1) by simp
  from run_pressed[OF nd assms(2,3), where cfg = cfg and g = g]
  have q: "state ?q = DRAGGING" "prev_state ?q = WANDERING"
    using assms(1) by simp_all
  from update_mouse_keeps[of cfg ?q mx my False now] q
  have u: "state ?u = DRAGGING" "prev_state ?u = WANDERING" "\<not> mouse_pressed ?u"
    by simp_all
  have d: "tick_dist ?u = tick_dist (?u\<lparr>state := WANDERING\<rparr>)"
    using tick_dist_released[of ?u] u by simp
  have "state (fst (run cfg p g (inps @ [(mx, my, False, now)])))
      = state (fst (tick cfg (?u\<lparr>state := WANDERING\<rparr>) now g))"
    using run_release[OF nd assms(2,3), where cfg = cfg and g = g and mx = mx and my = my
        and now = now] assms(1) by simp
  also have "\<dots> = (if tick_dist (?u\<lparr>state := WANDERING\<rparr>) > FAR_DISTANCE cfg
           \<and> \<not> seal_active (?u\<lparr>state := WANDERING\<rparr>) then CHASING
        else if now > wander_end_time (?u\<lparr>state := WANDERING\<rparr>) then IDLING else WANDERING)"
    using tick_wandering[of "?u\<lparr>state := WANDERING\<rparr>" cfg now g] u by simp
  finally show ?thesis
    using d by simp
qed

lemma drag_run_1:
  "state (fst (run base_config (pet_init base_config 0 0) no_draws [(0, 0, False, 0)])) = WANDERING"
  by (simp add: frame_defs pet_init_def base_config_def init_wander_def pick_wander_target_def
      rng_defs hypot_x_0)


lemma drag_run_2:
  "state (fst (run base_config (pet_init base_config 0 0) no_draws
      [(0, 0, False, 0), (0, 0, True, 33)])) = DRAGGING
   \<and> prev_state (fst (run base_config (pet_init base_config 0 0) no_draws
      [(0, 0, False, 0), (0, 0, True, 33)])) = WANDERING"
  by (simp add: eval_defs)

lemma drag_run_3:
  "state (fst (run base_config (pet_init base_config 0 0) no_draws drag_inputs)) = CHASING"
  by (simp add: drag_inputs_def eval_defs)

lemma drag_run_4:
  "state (fst (run base_config (pet_init base_config 0 0) no_draws
      [(0, 0, False, 0), (0, 0, True, 33), (150, 0, True, 66), (300, 0, True, 99)])) = DRAGGING
   \<and> prev_state (fst (run base_config (pet_init base_config 0 0) no_draws
      [(0, 0, False, 0), (0, 0, True, 33), (150, 0, True, 66), (300, 0, True, 99)])) = WANDERING
   \<and> state (fst (run base_config (pet_init base_config 0 0) no_draws
      [(0, 0, False, 0), (0, 0, True, 33), (150, 0, True, 66), (300, 0, True, 99),
       (300, 0, False, 132)])) = CHASING"
  by (simp add: eval_defs)

text \<open>
  A pet created at the origin wanders after the first frame and is dragged in the
  second. The button is released with the pointer 300 pixels away: the tick restores
  \<open>WANDERING\<close> and the handler of that state, run in the same tick, moves on to
  \<open>CHASING\<close>. The same happens when the button is held for two more frames, in
  which the pointer is carried there, before it is released.
\<close>

theorem drag_release_counterexample:
  "state (fst (run base_config (pet_init base_config 0 0) no_draws [(0, 0, False, 0)]))
     = WANDERING
   \<and> state (fst (run base_config (pet_init base_config 0 0) no_draws
        [(0, 0, False, 0), (0, 0, True, 33)])) = DRAGGING
   \<and> prev_state (fst (run base_config (pet_init base_config 0 0) no_draws
        [(0, 0, False, 0), (0, 0, True, 33)])) = WANDERING
   \<and> drag_inputs = [(0, 0, False, 0), (0, 0, True, 33), (300, 0, False, 66)]
   \<and> state (fst (run base_config (pet_init base_config 0 0) no_draws drag_inputs)) = CHASING
   \<and> state (fst (run base_config (pet_init base_config 0 0) no_draws drag_inputs)) \<noteq> WANDERING
   \<and> state (fst (run base_config (pet_init base_config 0 0) no_draws
        [(0, 0, False, 0), (0, 0, True, 33), (150, 0, True, 66), (300, 0, True, 99)])) = DRAGGING
   \<and> prev_state (fst (run base_config (pet_init base_config 0 0) no_draws
        [(0, 0, False, 0), (0, 0, True, 33), (150, 0, True, 66), (300, 0, True, 99)])) = WANDERING
   \<and> state (fst (run base_config (pet_init base_config 0 0) no_draws
        [(0, 0, False, 0), (0, 0, True, 33), (150, 0, True, 66), (300, 0, True, 99),
         (300, 0, False, 132)])) = CHASING"
  using drag_run_1 drag_run_2 drag_run_3 drag_run_4 by (simp add: drag_inputs_def)

text \<open>
  Claim C7, as amended. A tick with the button pressed in a state \<open>S\<close> other than
  \<open>DRAGGING\<close> remembers \<open>S\<close>, switches to \<open>DRAGGING\<close> and does nothing else but set the
  drag animation. A tick with the button held in \<open>DRAGGING\<close> changes nothing but the
  animation, and \<^verbatim>\<open>update_mouse\<close> changes neither the state nor the remembered state:
  after any number of frames with the button held the state is \<open>DRAGGING\<close> and the
  remembered state is \<open>S\<close>. A tick with the button released in \<open>DRAGGING\<close> restores
  the remembered state and then runs its handler in the same tick: it is the tick of
  the pet with that state restored, and so is the frame that releases the button after
  any number of held frames. For \<open>S = WANDERING\<close> the state after that tick is
  \<open>WANDERING\<close> when the target is not beyond \<^verbatim>\<open>FAR_DISTANCE\<close> (or a seal is active)
  and the wander timer has not expired, \<open>CHASING\<close> when the target is beyond
  \<^verbatim>\<open>FAR_DISTANCE\<close> with no seal, and \<open>IDLING\<close> when the timer has expired.
\<close>

theorem drag_interrupt:
  "(mouse_pressed p \<and> state p \<noteq> DRAGGING \<longrightarrow>
      tick cfg p now g
      = (p\<lparr>prev_state := state p, state := DRAGGING, current_gif := GIF_DRAG,
            flipped := False\<rparr>, g))
   \<and> (mouse_pressed p \<and> state p = DRAGGING \<longrightarrow>
      tick cfg p now g = (p\<lparr>current_gif := GIF_DRAG, flipped := False\<rparr>, g))
   \<and> state (update_mouse cfg p mx my b now) = state p
   \<and> prev_state (update_mouse cfg p mx my b now) = prev_state p
   \<and> (\<not> mouse_pressed p \<and> state p = DRAGGING \<longrightarrow>
      tick cfg p now g = tick cfg (p\<lparr>state := prev_state p\<rparr>) now g)
   \<and> (\<not> mouse_pressed p \<and> state p = DRAGGING \<and> prev_state p = WANDERING
       \<and> (tick_dist p \<le> FAR_DISTANCE cfg \<or> seal_active p) \<and> now \<le> wander_end_time p \<longrightarrow>
      state (fst (tick cfg p now g)) = WANDERING)
   \<and> (\<not> mouse_pressed p \<and> state p = DRAGGING \<and> prev_state p = WANDERING
       \<and> tick_dist p > FAR_DISTANCE cfg \<and> \<not> seal_active p \<longrightarrow>
      state (fst (tick cfg p now g)) = CHASING)
   \<and> (\<not> mouse_pressed p \<and> state p = DRAGGING \<and> prev_state p = WANDERING
       \<and> (tick_dist p \<le> FAR_DISTANCE cfg \<or> seal_active p) \<and> now > wander_end_time p \<longrightarrow>
      state (fst (tick cfg p now g)) = IDLING)
   \<and> (state p \<noteq> DRAGGING \<and> inps \<noteq> [] \<and> all_pressed inps \<longrightarrow>
      state (fst (run cfg p g inps)) = DRAGGING
      \<and> prev_state (fst (run cfg p g inps)) = state p
      \<and> run cfg p g (inps @ [(mx, my, False, now)])
        = tick cfg ((update_mouse cfg (fst (run cfg p g inps)) mx my False now)
                      \<lparr>state := state p\<rparr>) now g)
   \<and> (state p = WANDERING \<and> inps \<noteq> [] \<and> all_pressed inps \<longrightarrow>
      state (fst (run cfg p g (inps @ [(mx, my, False, now)])))
      = (if tick_dist (update_mouse cfg (fst (run cfg p g inps)) mx my False now)
              > FAR_DISTANCE cfg
            \<and> \<not> seal_active (update_mouse cfg (fst (run cfg p g inps)) mx my False now)
         then CHASING
         else if now > wander_end_time (update_mouse cfg (fst (run cfg p g inps)) mx my False now)
         then IDLING else WANDERING))"
proof -
  have w: "\<not> mouse_pressed p \<and> state p = DRAGGING \<and> prev_state p = WANDERING \<longrightarrow>
    state (fst (tick cfg p now g))
    = (if tick_dist p > FAR_DISTANCE cfg \<and> \<not> seal_active p then CHASING
       else if now > wander_end_time p then IDLING else WANDERING)"
    using tick_wandering[of "p\<lparr>state := prev_state p\<rparr>" cfg now g]
    by (auto simp: tick_released tick_dist_released)
  have r: "state p \<noteq> DRAGGING \<and> inps \<noteq> [] \<and> all_pressed inps \<longrightarrow>
      state (fst (run cfg p g inps)) = DRAGGING
      \<and> prev_state (fst (run cfg p g inps)) = state p
      \<and> run cfg p g (inps @ [(mx, my, False, now)])
        = tick cfg ((update_mouse cfg (fst (run cfg p g inps)) mx my False now)
                      \<lparr>state := state p\<rparr>) now g"
    using run_pressed[of p inps cfg g] run_release[of p inps cfg g mx my now] by blast
  have rw: "state p = WANDERING \<and> inps \<noteq> [] \<and> all_pressed inps \<longrightarrow>
      state (fst (run cfg p g (inps @ [(mx, my, False, now)])))
      = (if tick_dist (update_mouse cfg (fst (run cfg p g inps)) mx my False now)
              > FAR_DISTANCE cfg
            \<and> \<not> seal_active (update_mouse cfg (fst (run cfg p g inps)) mx my False now)
         then CHASING
         else if now > wander_end_time (update_mouse cfg (fst (run cfg p g inps)) mx my False now)
         then IDLING else WANDERING)"
    using run_release_wandering[of p inps cfg g mx my now] by blast
  have u: "state (update_mouse cfg p mx my b now) = state p"
    "prev_state (update_mouse cfg p mx my b now) = prev_state p"
    using update_mouse_keeps[of cfg p mx my b now] by simp_all
  have a: "mouse_pressed p \<and> state p \<noteq> DRAGGING \<longrightarrow>
      tick cfg p now g
      = (p\<lparr>prev_state := state p, state := DRAGGING, current_gif := GIF_DRAG,
            flipped := False\<rparr>, g)"
    using tick_pressed[of p cfg now g] by blast
  have h: "mouse_pressed p \<and> state p = DRAGGING \<longrightarrow>
      tick cfg p now g = (p\<lparr>current_gif := GIF_DRAG, flipped := False\<rparr>, g)"
    using tick_held[of p cfg now g] by blast
  have rel: "\<not> mouse_pressed p \<and> state p = DRAGGING \<longrightarrow>
      tick cfg p now g = tick cfg (p\<lparr>state := prev_state p\<rparr>) now g"
    using tick_released[of p cfg now g] by blast
  have w1: "\<not> mouse_pressed p \<and> state p = DRAGGING \<and> prev_state p = WANDERING
       \<and> (tick_dist p \<le> FAR_DISTANCE cfg \<or> seal_active p) \<and> now \<le> wander_end_time p \<longrightarrow>
      state (fst (tick cfg p now g)) = WANDERING"
    using w by auto
  have w2: "\<not> mouse_pressed p \<and> state p = DRAGGING \<and> prev_state p = WANDERING
       \<and> tick_dist p > FAR_DISTANCE cfg \<and> \<not> seal_active p \<longrightarrow>
      state (fst (tick cfg p now g)) = CHASING"
    using w by auto
  have w3: "\<not> mouse_pressed p \<and> state p = DRAGGING \<and> prev_state p = WANDERING
       \<and> (tick_dist p \<le> FAR_DISTANCE cfg \<or> seal_active p) \<and> now > wander_end_time p \<longrightarrow>
      state (fst (tick cfg p now g)) = IDLING"
    using w by auto
  show ?thesis
    by (intro conjI a h u rel w1 w2 w3 r rw)
qed

lemma hold_run:
  "state wandering_pet = WANDERING" "hold_inputs \<noteq> []" "all_pressed hold_inputs"
  by (simp_all add: wandering_pet_def hold_inputs_def all_pressed_def)

lemma hold_release_facts:
  "tick_dist (update_mouse base_config (fst (run base_config wandering_pet no_draws hold_inputs))
      30 0 False 1100) = 30"
  "tick_dist (update_mouse base_config (fst (run base_config wandering_pet no_draws hold_inputs))
      300 0 False 1100) = 300"
  "wander_end_time (update_mouse base_config
      (fst (run base_config wandering_pet no_draws hold_inputs)) 30 0 False 1100) = 3000"
  "wander_end_time (update_mouse base_config
      (fst (run base_config wandering_pet no_draws hold_inputs)) 30 0 False 5000) = 3000"
  "tick_dist (update_mouse base_config (fst (run base_config wandering_pet no_draws hold_inputs))
      30 0 False 5000) = 30"
  "\<not> seal_active (update_mouse base_config
      (fst (run base_config wandering_pet no_draws hold_inputs)) 300 0 False 1100)"
  by (simp_all add: hold_inputs_def wandering_pet_def eval_defs)

theorem drag_interrupt_witness:
  "mouse_pressed pressed_pet \<and> state pressed_pet \<noteq> DRAGGING
   \<and> state pressed_pet = WANDERING
   \<and> state (fst (tick base_config pressed_pet 1000 no_draws)) = DRAGGING
   \<and> prev_state (fst (tick base_config pressed_pet 1000 no_draws)) = WANDERING
   \<and> mouse_pressed (fst (tick base_config pressed_pet 1000 no_draws))
   \<and> state (fst (tick base_config (fst (tick base_config pressed_pet 1000 no_draws)) 1033
        no_draws)) = DRAGGING
   \<and> prev_state (fst (tick base_config (fst (tick base_config pressed_pet 1000 no_draws)) 1033
        no_draws)) = WANDERING
   \<and> \<not> mouse_pressed released_pet \<and> state released_pet = DRAGGING
   \<and> prev_state released_pet = WANDERING
   \<and> tick_dist released_pet \<le> FAR_DISTANCE base_config
   \<and> 2000 \<le> wander_end_time released_pet
   \<and> state (fst (tick base_config released_pet 2000 no_draws)) = WANDERING
   \<and> 5000 > wander_end_time released_pet
   \<and> state (fst (tick base_config released_pet 5000 no_draws)) = IDLING
   \<and> \<not> mouse_pressed released_far_pet \<and> state released_far_pet = DRAGGING
   \<and> prev_state released_far_pet = WANDERING
   \<and> tick_dist released_far_pet > FAR_DISTANCE base_config
   \<and> \<not> seal_active released_far_pet
   \<and> state (fst (tick base_config released_far_pet 2000 no_draws)) = CHASING
   \<and> state wandering_pet = WANDERING \<and> hold_inputs \<noteq> [] \<and> all_pressed hold_inputs
   \<and> length hold_inputs = 3
   \<and> state (fst (run base_config wandering_pet no_draws hold_inputs)) = DRAGGING
   \<and> prev_state (fst (run base_config wandering_pet no_draws hold_inputs)) = WANDERING
   \<and> state (fst (run base_config wandering_pet no_draws (hold_inputs @ [(30, 0, False, 1100)])))
       = WANDERING
   \<and> state (fst (run base_config wandering_pet no_draws (hold_inputs @ [(300, 0, False, 1100)])))
       = CHASING
   \<and> state (fst (run base_config wandering_pet no_draws (hold_inputs @ [(30, 0, False, 5000)])))
       = IDLING"
proof -
  have a: "mouse_pressed pressed_pet" "state pressed_pet \<noteq> DRAGGING" "state pressed_pet = WANDERING"
    by (simp_all add: pressed_pet_def)
  from drag_interrupt[where p = pressed_pet and cfg = base_config and now = 1000
      and g = no_draws, THEN conjunct1] a
  have t: "tick base_config pressed_pet 1000 no_draws
      = (pressed_pet\<lparr>prev_state := state pressed_pet, state := DRAGGING,
           current_gif := GIF_DRAG, flipped := False\<rparr>, no_draws)"
    by simp
  have b: "state (fst (tick base_config pressed_pet 1000 no_draws)) = DRAGGING"
    "prev_state (fst (tick base_config pressed_pet 1000 no_draws)) = WANDERING"
    "mouse_pressed (fst (tick base_config pressed_pet 1000 no_draws))"
    by (simp_all add: t a)
  let ?d = "fst (tick base_config pressed_pet 1000 no_draws)"
  from drag_interrupt[where p = ?d and cfg = base_config and now = 1033 and g = no_draws,
      THEN conjunct2, THEN conjunct1] b
  have "tick base_config ?d 1033 no_draws
      = (?d\<lparr>current_gif := GIF_DRAG, flipped := False\<rparr>, no_draws)"
    by blast
  with b have h: "state (fst (tick base_config ?d 1033 no_draws)) = DRAGGING"
    "prev_state (fst (tick base_config ?d 1033 no_draws)) = WANDERING"
    by simp_all
  have r: "released_pet
      = pressed_pet\<lparr>prev_state := WANDERING, state := DRAGGING, current_gif := GIF_DRAG,
          flipped := False, mouse_pressed := False\<rparr>"
    by (simp add: released_pet_def t a)
  have c: "\<not> mouse_pressed released_pet" "state released_pet = DRAGGING"
    "prev_state released_pet = WANDERING" "2000 \<le> wander_end_time released_pet"
    "5000 > wander_end_time released_pet"
    by (simp_all add: r pressed_pet_def)
  have d: "tick_dist released_pet \<le> FAR_DISTANCE base_config"
    by (simp add: r tick_dist_def drag_detection_def choose_target_def
        pressed_pet_def pet_init_def base_config_def hypot_x_0)
  have e: "\<not> mouse_pressed released_far_pet" "state released_far_pet = DRAGGING"
    "prev_state released_far_pet = WANDERING" "\<not> seal_active released_far_pet"
    by (simp_all add: released_far_pet_def r pressed_pet_def pet_init_def)
  have f: "tick_dist released_far_pet > FAR_DISTANCE base_config"
    by (simp add: released_far_pet_def r tick_dist_def drag_detection_def choose_target_def
        pressed_pet_def pet_init_def base_config_def hypot_x_0)
  note rel = drag_interrupt[where p = released_pet and cfg = base_config and g = no_draws]
  from rel[where now = 2000, THEN conjunct2, THEN conjunct2, THEN conjunct2, THEN conjunct2,
      THEN conjunct2, THEN conjunct1] c d
  have 1: "state (fst (tick base_config released_pet 2000 no_draws)) = WANDERING"
    by simp
  from rel[where now = 5000, THEN conjunct2, THEN conjunct2, THEN conjunct2, THEN conjunct2,
      THEN conjunct2, THEN conjunct2, THEN conjunct2, THEN conjunct1] c d
  have 2: "state (fst (tick base_config released_pet 5000 no_draws)) = IDLING"
    by simp
  from drag_interrupt[where p = released_far_pet and cfg = base_config and g = no_draws
      and now = 2000, THEN conjunct2, THEN conjunct2, THEN conjunct2, THEN conjunct2,
      THEN conjunct2, THEN conjunct2, THEN conjunct1] e f
  have 3: "state (fst (tick base_config released_far_pet 2000 no_draws)) = CHASING"
    by simp
  have far: "FAR_DISTANCE base_config = 250"
    by (simp add: base_config_def)
  have nd: "state wandering_pet \<noteq> DRAGGING"
    using hold_run(1) by simp
  note rn = drag_interrupt[where p = wandering_pet and cfg = base_config and g = no_draws
      and inps = hold_inputs]
  from rn[THEN conjunct2, THEN conjunct2, THEN conjunct2, THEN conjunct2, THEN conjunct2,
      THEN conjunct2, THEN conjunct2, THEN conjunct2, THEN conjunct1] nd hold_run
  have 4: "state (fst (run base_config wandering_pet no_draws hold_inputs)) = DRAGGING"
    "prev_state (fst (run base_config wandering_pet no_draws hold_inputs)) = WANDERING"
    by simp_all
  from drag_interrupt[where p = wandering_pet and cfg = base_config and g = no_draws
      and inps = hold_inputs and mx = 30 and my = 0 and now = 1100, THEN conjunct2,
      THEN conjunct2, THEN conjunct2, THEN conjunct2, THEN conjunct2, THEN conjunct2,
      THEN conjunct2, THEN conjunct2, THEN conjunct2] hold_run
  have 5: "state (fst (run base_config wandering_pet no_draws
      (hold_inputs @ [(30, 0, False, 1100)]))) = WANDERING"
    by (simp add: hold_release_facts far)
  from drag_interrupt[where p = wandering_pet and cfg = base_config and g = no_draws
      and inps = hold_inputs and mx = 300 and my = 0 and now = 1100, THEN conjunct2,
      THEN conjunct2, THEN conjunct2, THEN conjunct2, THEN conjunct2, THEN conjunct2,
      THEN conjunct2, THEN conjunct2, THEN conjunct2] hold_run
  have 6: "state (fst (run base_config wandering_pet no_draws
      (hold_inputs @ [(300, 0, False, 1100)]))) = CHASING"
    by (simp add: hold_release_facts far)
  from drag_interrupt[where p = wandering_pet and cfg = base_config and g = no_draws
      and inps = hold_inputs and mx = 30 and my = 0 and now = 5000, THEN conjunct2,
      THEN conjunct2, THEN conjunct2, THEN conjunct2, THEN conjunct2, THEN conjunct2,
      THEN conjunct2, THEN conjunct2, THEN conjunct2] hold_run
  have 7: "state (fst (run base_config wandering_pet no_draws
      (hold_inputs @ [(30, 0, False, 5000)]))) = IDLING"
    by (simp add: hold_release_facts far)
  have l: "length hold_inputs = 3"
    by (simp add: hold_inputs_def)
  from a b h c d e f 1 2 3 4 5 6 7 hold_run l show ?thesis by simp
qed

section \<open>The one-shot flags\<close>

lemma flags_move_toward:
  "seal_should_appear (move_toward p dx dy d speed) = seal_should_appear p"
  "seal_should_disappear (move_toward p dx dy d speed) = seal_should_disappear p"
  "seal_active (move_toward p dx dy d speed) = seal_active p"
  by (simp_all add: move_toward_def)

lemma flags_pick_wander_target:
  "seal_should_appear (fst (pick_wander_target cfg p now g)) = seal_should_appear p"
  "seal_should_disappear (fst (pick_wander_target cfg p now g)) = seal_should_disappear p"
  by (simp_all add: pick_wander_target_def uniform_def randint_def)

lemma flags_init_wander:
  "seal_should_appear (fst (init_wander cfg p now g)) = seal_should_appear p"
  "seal_should_disappear (fst (init_wander cfg p now g)) = seal_should_disappear p"
  by (simp_all add: init_wander_def randint_def flags_pick_wander_target)

lemma flags_init_idle:
  "seal_should_appear (fst (init_idle p now g)) = seal_should_appear p"
  "seal_should_disappear (fst (init_idle p now g)) = seal_should_disappear p"
  by (simp_all add: init_idle_def randint_def Let_def case_prod_beta)

lemma flags_handle_chasing:
  "seal_should_appear (fst (handle_chasing cfg p dx dy d now g)) = seal_should_appear p"
  "seal_should_disappear (fst (handle_chasing cfg p dx dy d now g)) = seal_should_disappear p"
  by (simp_all add: handle_chasing_def flags_init_wander flags_move_toward)

lemma flags_handle_wandering:
  "seal_should_appear (fst (handle_wandering cfg p dx dy d now g)) = seal_should_appear p"
  "seal_should_disappear (fst (handle_wandering cfg p dx dy d now g)) = seal_should_disappear p"
  by (simp_all add: handle_wandering_def flags_init_idle flags_pick_wander_target
      flags_move_toward Let_def case_prod_beta)

lemma flags_handle_seal_mode:
  "seal_should_appear (fst (handle_seal_mode cfg p dx dy d now g)) = seal_should_appear p"
  "seal_should_disappear (fst (handle_seal_mode cfg p dx dy d now g)) = seal_should_disappear p"
  by (simp_all add: handle_seal_mode_def flags_move_toward uniform_def randint_def
      Let_def case_prod_beta)

lemma disappear_handle_idling:
  "seal_should_disappear (fst (handle_idling cfg p dx dy d now g)) = seal_should_disappear p"
  by (simp add: handle_idling_def flags_init_wander randint_def Let_def case_prod_beta)

lemma appear_handle_idling:
  "seal_should_appear (fst (handle_idling cfg p dx dy d now g))
   = (seal_should_appear p
      \<or> (\<not> seal_active p \<and> d \<le> FAR_DISTANCE cfg
         \<and> hypot (mouse_x p - idle_anchor_mouse_x p) (mouse_y p - idle_anchor_mouse_y p)
             \<le> MOUSE_MOVE_THRESHOLD cfg * 10
         \<and> mouse_idle_time p > real_of_int MOUSE_IDLE_T2))"
  by (auto simp add: handle_idling_def flags_init_wander randint_def Let_def case_prod_beta)

lemma flags_drag_detection:
  "seal_should_appear (drag_detection p) = seal_should_appear p"
  "seal_should_disappear (drag_detection p) = seal_should_disappear p"
  "seal_active (drag_detection p) = seal_active p"
  by (simp_all add: drag_detection_def)

lemma disappear_tick:
  "seal_should_disappear (fst (tick cfg p now g)) = seal_should_disappear p"
  by (cases "state (drag_detection p)")
    (simp_all add: tick_def Let_def case_prod_beta flags_handle_chasing flags_handle_wandering
      flags_handle_seal_mode disappear_handle_idling handle_dragging_def flags_drag_detection)

lemma appear_tick:
  "seal_should_appear (fst (tick cfg p now g)) = (seal_should_appear p \<or> spawn_triggered cfg p)"
  by (cases "state (drag_detection p)")
    (auto simp add: tick_def tick_dist_def spawn_triggered_def Let_def case_prod_beta
      flags_handle_chasing flags_handle_wandering flags_handle_seal_mode appear_handle_idling
      handle_dragging_def flags_drag_detection)

lemma disappear_update_mouse:
  "seal_should_disappear (update_mouse cfg p mx my b now)
   = (seal_should_disappear p \<or> despawn_triggered cfg p mx my)"
  by (simp add: update_mouse_def despawn_triggered_def Let_def)

lemma appear_update_mouse:
  "seal_should_appear (update_mouse cfg p mx my b now) = seal_should_appear p"
  by (simp add: update_mouse_def Let_def)

lemma spawn_triggered_flags:
  "spawn_triggered cfg (p\<lparr>seal_should_appear := a, seal_should_disappear := b\<rparr>)
   = spawn_triggered cfg p"
  by (simp add: spawn_triggered_def tick_dist_def drag_detection_def choose_target_def Let_def)

lemma update_mouse_reset:
  "update_mouse cfg (p\<lparr>seal_should_appear := False, seal_should_disappear := False\<rparr>) mx my b now
   = (update_mouse cfg p mx my b now)
       \<lparr>seal_should_appear := False, seal_should_disappear := despawn_triggered cfg p mx my\<rparr>"
  by (simp add: update_mouse_def despawn_triggered_def Let_def)

text \<open>
  Claim C5. The tick driver clears both one-shot flags before it feeds the sample and
  advances the pet, so the result of a tick does not depend on the flags before it:
  after the tick, \<^verbatim>\<open>seal_should_disappear\<close> is true exactly when this tick's input
  dismissed a seal and \<^verbatim>\<open>seal_should_appear\<close> exactly when this tick's idling handler
  spawned one. In a tick that triggers neither, both flags read false.
\<close>

theorem flags_reset_each_tick:
  "app_tick cfg (p\<lparr>seal_should_appear := a, seal_should_disappear := b\<rparr>)
       mx my buttons needs_dpr dpr now g
     = app_tick cfg p mx my buttons needs_dpr dpr now g
   \<and> seal_should_disappear (fst (app_tick cfg p mx my buttons needs_dpr dpr now g))
     = despawn_triggered cfg p (dpr_scaled needs_dpr dpr mx) (dpr_scaled needs_dpr dpr my)
   \<and> seal_should_appear (fst (app_tick cfg p mx my buttons needs_dpr dpr now g))
     = spawn_triggered cfg
         (update_mouse cfg p (dpr_scaled needs_dpr dpr mx) (dpr_scaled needs_dpr dpr my)
            buttons now)
   \<and> (\<not> despawn_triggered cfg p (dpr_scaled needs_dpr dpr mx) (dpr_scaled needs_dpr dpr my)
       \<and> \<not> spawn_triggered cfg
             (update_mouse cfg p (dpr_scaled needs_dpr dpr mx) (dpr_scaled needs_dpr dpr my)
                buttons now)
      \<longrightarrow> \<not> seal_should_appear (fst (app_tick cfg p mx my buttons needs_dpr dpr now g))
          \<and> \<not> seal_should_disappear (fst (app_tick cfg p mx my buttons needs_dpr dpr now g)))"
proof -
  have 1: "app_tick cfg (p\<lparr>seal_should_appear := a, seal_should_disappear := b\<rparr>)
       mx my buttons needs_dpr dpr now g
     = app_tick cfg p mx my buttons needs_dpr dpr now g"
    by (simp add: app_tick_def)
  have 2: "seal_should_disappear (fst (app_tick cfg p mx my buttons needs_dpr dpr now g))
     = despawn_triggered cfg p (dpr_scaled needs_dpr dpr mx) (dpr_scaled needs_dpr dpr my)"
    by (simp add: app_tick_def Let_def disappear_tick update_mouse_reset)
  have 3: "seal_should_appear (fst (app_tick cfg p mx my buttons needs_dpr dpr now g))
     = spawn_triggered cfg
         (update_mouse cfg p (dpr_scaled needs_dpr dpr mx) (dpr_scaled needs_dpr dpr my)
            buttons now)"
    by (simp add: app_tick_def Let_def appear_tick update_mouse_reset spawn_triggered_flags)
  from 1 2 3 show ?thesis by simp
qed

theorem flags_reset_each_tick_witness:
  "seal_should_appear stale_flags_pet \<and> seal_should_disappear stale_flags_pet
   \<and> \<not> despawn_triggered base_config stale_flags_pet
         (dpr_scaled False 1 10) (dpr_scaled False 1 0)
   \<and> \<not> spawn_triggered base_config
         (update_mouse base_config stale_flags_pet (dpr_scaled False 1 10) (dpr_scaled False 1 0)
            False 1000)
   \<and> \<not> seal_should_appear (fst (app_tick base_config stale_flags_pet 10 0 False False 1 1000 no_draws))
   \<and> \<not> seal_should_disappear
         (fst (app_tick base_config stale_flags_pet 10 0 False False 1 1000 no_draws))"
proof -
  have a: "seal_should_appear stale_flags_pet" "seal_should_disappear stale_flags_pet"
    by (simp_all add: stale_flags_pet_def)
  have b: "\<not> despawn_triggered base_config stale_flags_pet
         (dpr_scaled False 1 10) (dpr_scaled False 1 0)"
    by (simp add: despawn_triggered_def stale_flags_pet_def idling_pet_def pet_init_def)
  have c: "\<not> spawn_triggered base_config
         (update_mouse base_config stale_flags_pet (dpr_scaled False 1 10) (dpr_scaled False 1 0)
            False 1000)"
    by (simp add: spawn_triggered_def update_mouse_def drag_detection_def Let_def
        stale_flags_pet_def idling_pet_def pet_init_def dpr_scaled_def MOUSE_IDLE_T2_def)
  from flags_reset_each_tick[where cfg = base_config and p = stale_flags_pet and mx = 10
      and my = 0 and buttons = False and needs_dpr = False and dpr = 1 and now = 1000
      and g = no_draws] b c
  have "\<not> seal_should_appear (fst (app_tick base_config stale_flags_pet 10 0 False False 1 1000 no_draws))
   \<and> \<not> seal_should_disappear
         (fst (app_tick base_config stale_flags_pet 10 0 False False 1 1000 no_draws))"
    by blast
  with a b c show ?thesis by blast
qed

section \<open>The seal lifecycle\<close>

lemma tick_idling_spawn:
  assumes "state p = IDLING" "\<not> seal_active p" "\<not> mouse_pressed p"
    "mouse_idle_time p > real_of_int MOUSE_IDLE_T2" "tick_dist p \<le> FAR_DISTANCE cfg"
    "hypot (mouse_x p - idle_anchor_mouse_x p) (mouse_y p - idle_anchor_mouse_y p)
       \<le> MOUSE_MOVE_THRESHOLD cfg * 10"
  shows "tick cfg p now g
     = (p\<lparr>seal_active := True, seal_should_appear := True, state := SEAL_MODE,
           seal_wander_dir_time := 0\<rparr>, g)"
  using assms
  by (simp add: tick_def tick_dist_def drag_detection_def Let_def case_prod_beta
      handle_idling_def)

lemma tick_seal_dismissed:
  assumes "state p = SEAL_MODE" "\<not> seal_active p" "\<not> mouse_pressed p"
  shows "tick cfg p now g = (p\<lparr>state := CHASING\<rparr>, g)"
  using assms
  by (simp add: tick_def drag_detection_def Let_def case_prod_beta handle_seal_mode_def)

lemma appear_tick_seal_active:
  "seal_active p \<Longrightarrow> seal_should_appear (fst (tick cfg p now g)) = seal_should_appear p"
  by (simp add: appear_tick spawn_triggered_def Let_def flags_drag_detection)

lemma update_mouse_despawn:
  assumes "seal_active p"
    "hypot (mx - last_mouse_x p) (my - last_mouse_y p) > MOUSE_MOVE_THRESHOLD cfg"
  shows "seal_should_disappear (update_mouse cfg p mx my b now)
    \<and> \<not> seal_active (update_mouse cfg p mx my b now)
    \<and> state (update_mouse cfg p mx my b now) = state p
    \<and> mouse_pressed (update_mouse cfg p mx my b now) = b"
  using assms by (simp add: update_mouse_def Let_def)

lemma handle_seal_mode_active:
  "seal_active p \<Longrightarrow>
   state (fst (handle_seal_mode cfg p dx dy d now g)) = state p
   \<and> prev_state (fst (handle_seal_mode cfg p dx dy d now g)) = prev_state p
   \<and> seal_active (fst (handle_seal_mode cfg p dx dy d now g))"
  by (simp add: handle_seal_mode_def move_toward_def uniform_def randint_def
      Let_def case_prod_beta)

lemma tick_seal_active:
  assumes "state p = SEAL_MODE" "seal_active p" "\<not> mouse_pressed p"
  shows "state (fst (tick cfg p now g)) = SEAL_MODE
   \<and> prev_state (fst (tick cfg p now g)) = prev_state p
   \<and> seal_active (fst (tick cfg p now g))"
  using assms
  by (simp add: tick_def drag_detection_def Let_def case_prod_beta handle_seal_mode_active)

lemma tick_in_seal:
  assumes "in_seal p"
  shows "in_seal (fst (tick cfg p now g))
   \<and> (\<not> mouse_pressed p \<longrightarrow> state (fst (tick cfg p now g)) = SEAL_MODE)
   \<and> (mouse_pressed p \<longrightarrow> state (fst (tick cfg p now g)) = DRAGGING
        \<and> prev_state (fst (tick cfg p now g)) = SEAL_MODE)"
proof (cases "mouse_pressed p")
  case True
  show ?thesis
  proof (cases "state p = DRAGGING")
    case True
    with \<open>mouse_pressed p\<close> assms show ?thesis
      by (simp add: tick_held in_seal_def)
  next
    case False
    with \<open>mouse_pressed p\<close> assms show ?thesis
      by (simp add: tick_pressed in_seal_def)
  qed
next
  case False
  show ?thesis
  proof (cases "state p = DRAGGING")
    case True
    with assms have pv: "prev_state p = SEAL_MODE" "seal_active p"
      by (simp_all add: in_seal_def)
    have "tick cfg p now g = tick cfg (p\<lparr>state := SEAL_MODE\<rparr>) now g"
      using tick_released[of p cfg now g] False True pv by simp
    with tick_seal_active[of "p\<lparr>state := SEAL_MODE\<rparr>" cfg now g] False pv show ?thesis
      by (simp add: in_seal_def)
  next
    case nd: False
    with assms have "state p = SEAL_MODE" "seal_active p"
      by (simp_all add: in_seal_def)
    with tick_seal_active[of p cfg now g] False show ?thesis
      by (simp add: in_seal_def)
  qed
qed

lemma update_mouse_still:
  assumes "hypot (mx - last_mouse_x p) (my - last_mouse_y p) \<le> MOUSE_MOVE_THRESHOLD cfg"
  shows "seal_active (update_mouse cfg p mx my b now) = seal_active p
   \<and> seal_should_disappear (update_mouse cfg p mx my b now) = seal_should_disappear p
   \<and> seal_should_appear (update_mouse cfg p mx my b now) = seal_should_appear p"
  using assms by (simp add: update_mouse_def Let_def)

lemma pet_step_in_seal:
  assumes "in_seal p"
    and "hypot (mx - last_mouse_x p) (my - last_mouse_y p) \<le> MOUSE_MOVE_THRESHOLD cfg"
  shows "in_seal (fst (pet_step cfg p g (mx, my, b, now)))
   \<and> seal_should_appear (fst (pet_step cfg p g (mx, my, b, now))) = seal_should_appear p
   \<and> seal_should_disappear (fst (pet_step cfg p g (mx, my, b, now))) = seal_should_disappear p"
proof -
  let ?u = "update_mouse cfg p mx my b now"
  have u: "in_seal ?u" "seal_active ?u" "seal_should_appear ?u = seal_should_appear p"
    "seal_should_disappear ?u = seal_should_disappear p"
    using assms update_mouse_still[OF assms(2), of b now] update_mouse_keeps[of cfg p mx my b now]
    by (simp_all add: in_seal_def)
  from tick_in_seal[OF u(1), of cfg now g] appear_tick_seal_active[OF u(2), of cfg now g]
    disappear_tick[of cfg ?u now g] u
  show ?thesis
    by (simp add: pet_step_def)
qed

lemma run_in_seal:
  "in_seal p \<Longrightarrow> quiet cfg p g inps \<Longrightarrow>
   in_seal (fst (run cfg p g inps))
   \<and> seal_should_appear (fst (run cfg p g inps)) = seal_should_appear p
   \<and> seal_should_disappear (fst (run cfg p g inps)) = seal_should_disappear p"
proof (induction inps arbitrary: p g)
  case Nil
  then show ?case by simp
next
  case (Cons inp rest)
  obtain mx my b now where inp: "inp = (mx, my, b, now)"
    by (cases inp) auto
  obtain p' g' where st: "pet_step cfg p g (mx, my, b, now) = (p', g')"
    by (cases "pet_step cfg p g (mx, my, b, now)") auto
  from Cons.prems(2)
  have still: "hypot (mx - last_mouse_x p) (my - last_mouse_y p) \<le> MOUSE_MOVE_THRESHOLD cfg"
    and rest: "quiet cfg p' g' rest"
    by (simp_all add: inp st)
  from pet_step_in_seal[OF Cons.prems(1) still, of g b now] st
  have p': "in_seal p'" "seal_should_appear p' = seal_should_appear p"
    "seal_should_disappear p' = seal_should_disappear p"
    by simp_all
  from Cons.IH[OF p'(1) rest] p' st show ?case
    by (simp add: inp)
qed

lemma pet_step_dismiss:
  assumes "in_seal p"
    and "hypot (mx - last_mouse_x p) (my - last_mouse_y p) > MOUSE_MOVE_THRESHOLD cfg"
  shows "state (fst (pet_step cfg p g (mx, my, False, now))) = CHASING
   \<and> \<not> seal_active (fst (pet_step cfg p g (mx, my, False, now)))
   \<and> seal_should_disappear (fst (pet_step cfg p g (mx, my, False, now)))"
proof -
  let ?u = "update_mouse cfg p mx my False now"
  have sa: "seal_active p" using assms(1) by (simp add: in_seal_def)
  from update_mouse_despawn[OF sa assms(2), of False now] update_mouse_keeps[of cfg p mx my False now]
  have u: "seal_should_disappear ?u" "\<not> seal_active ?u" "state ?u = state p"
    "prev_state ?u = prev_state p" "\<not> mouse_pressed ?u"
    by simp_all
  have t: "tick cfg ?u now g = (?u\<lparr>state := CHASING\<rparr>, g)"
  proof (cases "state p = DRAGGING")
    case True
    with assms(1) have pv: "prev_state p = SEAL_MODE" by (simp add: in_seal_def)
    have "tick cfg ?u now g = tick cfg (?u\<lparr>state := SEAL_MODE\<rparr>) now g"
      using tick_released[of ?u cfg now g] u True pv by simp
    also have "\<dots> = (?u\<lparr>state := SEAL_MODE\<rparr>\<lparr>state := CHASING\<rparr>, g)"
      using tick_seal_dismissed[of "?u\<lparr>state := SEAL_MODE\<rparr>" cfg now g] u by simp
    finally show ?thesis by simp
  next
    case False
    with assms(1) have "state p = SEAL_MODE" by (simp add: in_seal_def)
    with tick_seal_dismissed[of ?u cfg now g] u show ?thesis by simp
  qed
  show ?thesis
    using u by (simp add: pet_step_def t)
qed

lemma run_dismiss:
  assumes "in_seal p" and "quiet cfg p g inps"
    and "hypot (mx - last_mouse_x (fst (run cfg p g inps)))
           (my - last_mouse_y (fst (run cfg p g inps))) > MOUSE_MOVE_THRESHOLD cfg"
  shows "state (fst (run cfg p g (inps @ [(mx, my, False, now)]))) = CHASING
   \<and> \<not> seal_active (fst (run cfg p g (inps @ [(mx, my, False, now)])))
   \<and> seal_should_disappear (fst (run cfg p g (inps @ [(mx, my, False, now)])))"
proof -
  from run_in_seal[OF assms(1,2)] have q: "in_seal (fst (run cfg p g inps))"
    by simp
  from pet_step_dismiss[OF q assms(3), of "snd (run cfg p g inps)" now]
  show ?thesis
    by (simp add: run_append case_prod_beta)
qed

text \<open>
  Claim C4, as amended. In \<open>IDLING\<close> with no active seal, the button released, the
  target not beyond \<^verbatim>\<open>FAR_DISTANCE\<close> and the pointer within ten movement thresholds of
  where it was when idling began, a tick with the mouse idle time above
  \<^verbatim>\<open>MOUSE_IDLE_T2\<close> activates the seal, sets \<^verbatim>\<open>seal_should_appear\<close> and enters
  \<open>SEAL_MODE\<close>; while the seal is active no tick sets the flag again. In the seal
  phase (the seal active, the state \<open>SEAL_MODE\<close>, or \<open>DRAGGING\<close> out of \<open>SEAL_MODE\<close>)
  a tick keeps the seal active and stays in the phase: the state after it is
  \<open>SEAL_MODE\<close> with the button released and \<open>DRAGGING\<close>, remembering \<open>SEAL_MODE\<close>,
  with the button pressed; a frame or a run of frames in which the pointer never moves
  beyond the movement threshold stays in the phase and leaves both flags as they were.
  An \<^verbatim>\<open>update_mouse\<close> whose displacement exceeds the movement threshold clears the
  seal and sets \<^verbatim>\<open>seal_should_disappear\<close>, which no later input sets again while no seal
  is active; and the tick that follows, with the button released, enters \<open>CHASING\<close>:
  after any run of frames without movement, a frame with the button released whose
  displacement exceeds the threshold ends in \<open>CHASING\<close> with the seal cleared and
  \<^verbatim>\<open>seal_should_disappear\<close> set.
\<close>

theorem seal_lifecycle:
  "(state p = IDLING \<and> \<not> seal_active p \<and> \<not> mouse_pressed p
      \<and> mouse_idle_time p > real_of_int MOUSE_IDLE_T2 \<and> tick_dist p \<le> FAR_DISTANCE cfg
      \<and> hypot (mouse_x p - idle_anchor_mouse_x p) (mouse_y p - idle_anchor_mouse_y p)
          \<le> MOUSE_MOVE_THRESHOLD cfg * 10
    \<longrightarrow> tick cfg p now g
        = (p\<lparr>seal_active := True, seal_should_appear := True, state := SEAL_MODE,
              seal_wander_dir_time := 0\<rparr>, g)
        \<and> in_seal (fst (tick cfg p now g)))
   \<and> (seal_active p \<longrightarrow> seal_should_appear (fst (tick cfg p now g)) = seal_should_appear p)
   \<and> (seal_active p
      \<and> hypot (mx - last_mouse_x p) (my - last_mouse_y p) > MOUSE_MOVE_THRESHOLD cfg
    \<longrightarrow> seal_should_disappear (update_mouse cfg p mx my b now)
        \<and> \<not> seal_active (update_mouse cfg p mx my b now)
        \<and> state (update_mouse cfg p mx my b now) = state p)
   \<and> (\<not> seal_active p
    \<longrightarrow> seal_should_disappear (update_mouse cfg p mx my b now) = seal_should_disappear p)
   \<and> (state p = SEAL_MODE \<and> \<not> seal_active p \<and> \<not> mouse_pressed p
    \<longrightarrow> tick cfg p now g = (p\<lparr>state := CHASING\<rparr>, g))
   \<and> (in_seal p
    \<longrightarrow> in_seal (fst (tick cfg p now g))
        \<and> (\<not> mouse_pressed p \<longrightarrow> state (fst (tick cfg p now g)) = SEAL_MODE)
        \<and> (mouse_pressed p \<longrightarrow> state (fst (tick cfg p now g)) = DRAGGING
             \<and> prev_state (fst (tick cfg p now g)) = SEAL_MODE))
   \<and> (in_seal p
      \<and> hypot (mx - last_mouse_x p) (my - last_mouse_y p) \<le> MOUSE_MOVE_THRESHOLD cfg
    \<longrightarrow> in_seal (fst (pet_step cfg p g (mx, my, b, now)))
        \<and> seal_should_appear (fst (pet_step cfg p g (mx, my, b, now))) = seal_should_appear p
        \<and> seal_should_disappear (fst (pet_step cfg p g (mx, my, b, now)))
            = seal_should_disappear p)
   \<and> (in_seal p \<and> quiet cfg p g inps
    \<longrightarrow> in_seal (fst (run cfg p g inps))
        \<and> seal_should_appear (fst (run cfg p g inps)) = seal_should_appear p
        \<and> seal_should_disappear (fst (run cfg p g inps)) = seal_should_disappear p)
   \<and> (in_seal p \<and> quiet cfg p g inps
      \<and> hypot (mx - last_mouse_x (fst (run cfg p g inps)))
          (my - last_mouse_y (fst (run cfg p g inps))) > MOUSE_MOVE_THRESHOLD cfg
    \<longrightarrow> state (fst (run cfg p g (inps @ [(mx, my, False, now)]))) = CHASING
        \<and> \<not> seal_active (fst (run cfg p g (inps @ [(mx, my, False, now)])))
        \<and> seal_should_disappear (fst (run cfg p g (inps @ [(mx, my, False, now)]))))"
proof -
  have spawn: "state p = IDLING \<and> \<not> seal_active p \<and> \<not> mouse_pressed p
      \<and> mouse_idle_time p > real_of_int MOUSE_IDLE_T2 \<and> tick_dist p \<le> FAR_DISTANCE cfg
      \<and> hypot (mouse_x p - idle_anchor_mouse_x p) (mouse_y p - idle_anchor_mouse_y p)
          \<le> MOUSE_MOVE_THRESHOLD cfg * 10
    \<longrightarrow> tick cfg p now g
        = (p\<lparr>seal_active := True, seal_should_appear := True, state := SEAL_MODE,
              seal_wander_dir_time := 0\<rparr>, g)
        \<and> in_seal (fst (tick cfg p now g))"
    using tick_idling_spawn[of p cfg now g] by (simp add: in_seal_def)
  have once: "seal_active p \<longrightarrow> seal_should_appear (fst (tick cfg p now g)) = seal_should_appear p"
    using appear_tick_seal_active[of p cfg now g] by simp
  have despawn: "seal_active p
      \<and> hypot (mx - last_mouse_x p) (my - last_mouse_y p) > MOUSE_MOVE_THRESHOLD cfg
    \<longrightarrow> seal_should_disappear (update_mouse cfg p mx my b now)
        \<and> \<not> seal_active (update_mouse cfg p mx my b now)
        \<and> state (update_mouse cfg p mx my b now) = state p"
    using update_mouse_despawn[where p = p and mx = mx and my = my and cfg = cfg and b = b
      and now = now] by simp
  have keep: "\<not> seal_active p
    \<longrightarrow> seal_should_disappear (update_mouse cfg p mx my b now) = seal_should_disappear p"
    using disappear_update_mouse[of cfg p mx my b now] by (simp add: despawn_triggered_def)
  have chase: "state p = SEAL_MODE \<and> \<not> seal_active p \<and> \<not> mouse_pressed p
    \<longrightarrow> tick cfg p now g = (p\<lparr>state := CHASING\<rparr>, g)"
    using tick_seal_dismissed[of p cfg now g] by simp
  have stay: "in_seal p
    \<longrightarrow> in_seal (fst (tick cfg p now g))
        \<and> (\<not> mouse_pressed p \<longrightarrow> state (fst (tick cfg p now g)) = SEAL_MODE)
        \<and> (mouse_pressed p \<longrightarrow> state (fst (tick cfg p now g)) = DRAGGING
             \<and> prev_state (fst (tick cfg p now g)) = SEAL_MODE)"
    using tick_in_seal[of p cfg now g] by simp
  have frame: "in_seal p
      \<and> hypot (mx - last_mouse_x p) (my - last_mouse_y p) \<le> MOUSE_MOVE_THRESHOLD cfg
    \<longrightarrow> in_seal (fst (pet_step cfg p g (mx, my, b, now)))
        \<and> seal_should_appear (fst (pet_step cfg p g (mx, my, b, now))) = seal_should_appear p
        \<and> seal_should_disappear (fst (pet_step cfg p g (mx, my, b, now)))
            = seal_should_disappear p"
    using pet_step_in_seal[of p mx my cfg g b now] by simp
  have runs: "in_seal p \<and> quiet cfg p g inps
    \<longrightarrow> in_seal (fst (run cfg p g inps))
        \<and> seal_should_appear (fst (run cfg p g inps)) = seal_should_appear p
        \<and> seal_should_disappear (fst (run cfg p g inps)) = seal_should_disappear p"
    using run_in_seal[of p cfg g inps] by simp
  have dismiss: "in_seal p \<and> quiet cfg p g inps
      \<and> hypot (mx - last_mouse_x (fst (run cfg p g inps)))
          (my - last_mouse_y (fst (run cfg p g inps))) > MOUSE_MOVE_THRESHOLD cfg
    \<longrightarrow> state (fst (run cfg p g (inps @ [(mx, my, False, now)]))) = CHASING
        \<and> \<not> seal_active (fst (run cfg p g (inps @ [(mx, my, False, now)])))
        \<and> seal_should_disappear (fst (run cfg p g (inps @ [(mx, my, False, now)])))"
    using run_dismiss[of p cfg g inps mx my now] by simp
  show ?thesis
    by (intro conjI spawn once despawn keep chase stay frame runs dismiss)
qed

section \<open>The seal lifecycle: examples\<close>

lemmas idle_eval = frame_defs handle_idling_def handle_seal_mode_def idling_pet_def pet_init_def
  base_config_def MOUSE_IDLE_T2_def init_wander_def pick_wander_target_def rng_defs

lemma far_frame:
  "state (update_mouse base_config (idling_pet 249 249) 253 0 False 120001) = IDLING
   \<and> \<not> seal_active (update_mouse base_config (idling_pet 249 249) 253 0 False 120001)
   \<and> mouse_idle_time (update_mouse base_config (idling_pet 249 249) 253 0 False 120001)
       = 120001
   \<and> state (fst (pet_step base_config (idling_pet 249 249) no_draws (253, 0, False, 120001)))
       = CHASING
   \<and> \<not> seal_should_appear
         (fst (pet_step base_config (idling_pet 249 249) no_draws (253, 0, False, 120001)))"
  by (simp add: idle_eval)

lemma pressed_frame:
  "mouse_idle_time (update_mouse base_config (idling_pet 10 10) 10 0 True 120001) = 120001
   \<and> state (fst (pet_step base_config (idling_pet 10 10) no_draws (10, 0, True, 120001)))
       = DRAGGING
   \<and> \<not> seal_should_appear
         (fst (pet_step base_config (idling_pet 10 10) no_draws (10, 0, True, 120001)))"
  by (simp add: idle_eval)

lemma anchor_frame:
  "state (idling_pet 57 8) = IDLING
   \<and> hypot (mouse_x (idling_pet 57 8) - idle_anchor_mouse_x (idling_pet 57 8))
        (mouse_y (idling_pet 57 8) - idle_anchor_mouse_y (idling_pet 57 8))
       \<le> MOUSE_MOVE_THRESHOLD base_config * 10
   \<and> mouse_idle_time (update_mouse base_config (idling_pet 57 8) 61 0 False 120001) = 120001
   \<and> state (fst (pet_step base_config (idling_pet 57 8) no_draws (61, 0, False, 120001)))
       = WANDERING
   \<and> \<not> seal_should_appear
         (fst (pet_step base_config (idling_pet 57 8) no_draws (61, 0, False, 120001)))"
  by (simp add: idle_eval)

lemma sealed_pet_eq:
  "sealed_pet = (idling_pet 10 10)\<lparr>mouse_idle_time := 120001, seal_active := True,
     seal_should_appear := True, state := SEAL_MODE\<rparr>"
  by (simp add: sealed_pet_def idle_eval)

lemma quiet_run:
  "quiet base_config sealed_pet no_draws quiet_inputs"
  "last_mouse_x (fst (run base_config sealed_pet no_draws quiet_inputs)) = 12"
  "last_mouse_y (fst (run base_config sealed_pet no_draws quiet_inputs)) = 0"
  "state (fst (run base_config sealed_pet no_draws quiet_inputs)) = SEAL_MODE"
  "state (fst (run base_config sealed_pet no_draws [(10, 0, False, 120034), (12, 0, True, 120067)]))
     = DRAGGING"
  by (simp_all add: quiet_inputs_def sealed_pet_eq idle_eval)

lemma sealed_pressed_frame:
  "state sealed_pet = SEAL_MODE \<and> seal_active sealed_pet
   \<and> seal_should_disappear (update_mouse base_config sealed_pet 30 0 True 120034)
   \<and> state (fst (pet_step base_config sealed_pet no_draws (30, 0, True, 120034))) = DRAGGING"
  by (simp add: sealed_pet_eq idle_eval)

text \<open>
  Idling pets whose mouse idle time passes \<^verbatim>\<open>MOUSE_IDLE_T2\<close> in a frame that spawns no
  seal: the pointer has drifted beyond \<^verbatim>\<open>FAR_DISTANCE\<close> (the pet chases), the button is
  held (the pet is dragged), or the pointer, 49 pixels from where idling began, drifts
  four pixels further and so more than ten thresholds away (the pet wanders). And a
  seal dismissed with the button held leads to \<open>DRAGGING\<close>, not \<open>CHASING\<close>.
\<close>

theorem seal_lifecycle_counterexample:
  "state (update_mouse base_config (idling_pet 249 249) 253 0 False 120001) = IDLING
   \<and> \<not> seal_active (update_mouse base_config (idling_pet 249 249) 253 0 False 120001)
   \<and> mouse_idle_time (update_mouse base_config (idling_pet 249 249) 253 0 False 120001)
       = 120001
   \<and> MOUSE_IDLE_T2 = 120000
   \<and> state (fst (pet_step base_config (idling_pet 249 249) no_draws (253, 0, False, 120001)))
       = CHASING
   \<and> \<not> seal_should_appear
         (fst (pet_step base_config (idling_pet 249 249) no_draws (253, 0, False, 120001)))
   \<and> state (fst (pet_step base_config (idling_pet 10 10) no_draws (10, 0, True, 120001)))
       = DRAGGING
   \<and> \<not> seal_should_appear
         (fst (pet_step base_config (idling_pet 10 10) no_draws (10, 0, True, 120001)))
   \<and> state (idling_pet 57 8) = IDLING
   \<and> hypot (mouse_x (idling_pet 57 8) - idle_anchor_mouse_x (idling_pet 57 8))
        (mouse_y (idling_pet 57 8) - idle_anchor_mouse_y (idling_pet 57 8))
       \<le> MOUSE_MOVE_THRESHOLD base_config * 10
   \<and> mouse_idle_time (update_mouse base_config (idling_pet 57 8) 61 0 False 120001) = 120001
   \<and> state (fst (pet_step base_config (idling_pet 57 8) no_draws (61, 0, False, 120001)))
       = WANDERING
   \<and> \<not> seal_should_appear
         (fst (pet_step base_config (idling_pet 57 8) no_draws (61, 0, False, 120001)))
   \<and> state sealed_pet = SEAL_MODE \<and> seal_active sealed_pet
   \<and> seal_should_disappear (update_mouse base_config sealed_pet 30 0 True 120034)
   \<and> state (fst (pet_step base_config sealed_pet no_draws (30, 0, True, 120034))) = DRAGGING"
  using far_frame pressed_frame anchor_frame sealed_pressed_frame
  by (simp add: MOUSE_IDLE_T2_def)

theorem seal_lifecycle_witness:
  "state (update_mouse base_config (idling_pet 10 10) 10 0 False 120001) = IDLING
   \<and> mouse_idle_time (update_mouse base_config (idling_pet 10 10) 10 0 False 120001)
       > real_of_int MOUSE_IDLE_T2
   \<and> tick_dist (update_mouse base_config (idling_pet 10 10) 10 0 False 120001)
       \<le> FAR_DISTANCE base_config
   \<and> state sealed_pet = SEAL_MODE \<and> seal_active sealed_pet \<and> seal_should_appear sealed_pet
   \<and> in_seal sealed_pet
   \<and> seal_should_appear (fst (tick base_config sealed_pet 120034 no_draws))
       = seal_should_appear sealed_pet
   \<and> in_seal (fst (tick base_config sealed_pet 120034 no_draws))
   \<and> state (fst (tick base_config sealed_pet 120034 no_draws)) = SEAL_MODE
   \<and> quiet_inputs = [(10, 0, False, 120034), (12, 0, True, 120067), (12, 0, False, 120100)]
   \<and> quiet base_config sealed_pet no_draws quiet_inputs
   \<and> state (fst (run base_config sealed_pet no_draws
        [(10, 0, False, 120034), (12, 0, True, 120067)])) = DRAGGING
   \<and> in_seal (fst (run base_config sealed_pet no_draws quiet_inputs))
   \<and> state (fst (run base_config sealed_pet no_draws quiet_inputs)) = SEAL_MODE
   \<and> seal_should_appear (fst (run base_config sealed_pet no_draws quiet_inputs))
       = seal_should_appear sealed_pet
   \<and> \<not> seal_should_disappear (fst (run base_config sealed_pet no_draws quiet_inputs))
   \<and> hypot (30 - last_mouse_x (fst (run base_config sealed_pet no_draws quiet_inputs)))
        (0 - last_mouse_y (fst (run base_config sealed_pet no_draws quiet_inputs)))
       > MOUSE_MOVE_THRESHOLD base_config
   \<and> state (fst (run base_config sealed_pet no_draws (quiet_inputs @ [(30, 0, False, 120133)])))
       = CHASING
   \<and> \<not> seal_active
        (fst (run base_config sealed_pet no_draws (quiet_inputs @ [(30, 0, False, 120133)])))
   \<and> seal_should_disappear
        (fst (run base_config sealed_pet no_draws (quiet_inputs @ [(30, 0, False, 120133)])))
   \<and> hypot (30 - last_mouse_x sealed_pet) (0 - last_mouse_y sealed_pet)
       > MOUSE_MOVE_THRESHOLD base_config
   \<and> seal_should_disappear (update_mouse base_config sealed_pet 30 0 False 120034)
   \<and> \<not> seal_active (update_mouse base_config sealed_pet 30 0 False 120034)
   \<and> seal_should_disappear
        (update_mouse base_config (update_mouse base_config sealed_pet 30 0 False 120034)
           60 0 False 120067)
       = seal_should_disappear (update_mouse base_config sealed_pet 30 0 False 120034)
   \<and> state (fst (pet_step base_config sealed_pet no_draws (30, 0, False, 120034))) = CHASING"
proof -
  let ?q = "update_mouse base_config (idling_pet 10 10) 10 0 False 120001"
  have q: "state ?q = IDLING" "\<not> seal_active ?q" "\<not> mouse_pressed ?q"
    "mouse_idle_time ?q > real_of_int MOUSE_IDLE_T2" "tick_dist ?q \<le> FAR_DISTANCE base_config"
    "hypot (mouse_x ?q - idle_anchor_mouse_x ?q) (mouse_y ?q - idle_anchor_mouse_y ?q)
       \<le> MOUSE_MOVE_THRESHOLD base_config * 10"
    by (simp_all add: idle_eval)
  from seal_lifecycle[where p = ?q and cfg = base_config and now = 120001 and g = no_draws,
      THEN conjunct1] q
  have t: "tick base_config ?q 120001 no_draws
        = (?q\<lparr>seal_active := True, seal_should_appear := True, state := SEAL_MODE,
              seal_wander_dir_time := 0\<rparr>, no_draws)"
    and t': "in_seal (fst (tick base_config ?q 120001 no_draws))"
    by blast+
  have s: "sealed_pet = ?q\<lparr>seal_active := True, seal_should_appear := True, state := SEAL_MODE,
              seal_wander_dir_time := 0\<rparr>"
    by (simp add: sealed_pet_def pet_step_def t)
  have s1: "state sealed_pet = SEAL_MODE" "seal_active sealed_pet" "seal_should_appear sealed_pet"
    "\<not> mouse_pressed sealed_pet" "\<not> seal_should_disappear sealed_pet"
    by (simp_all add: sealed_pet_eq idling_pet_def pet_init_def)
  have s0: "in_seal sealed_pet"
    using t' by (simp add: sealed_pet_def pet_step_def)
  from seal_lifecycle[where p = sealed_pet and cfg = base_config and now = 120034
      and g = no_draws, THEN conjunct2, THEN conjunct1] s1
  have s2: "seal_should_appear (fst (tick base_config sealed_pet 120034 no_draws))
       = seal_should_appear sealed_pet"
    by blast
  from seal_lifecycle[where p = sealed_pet and cfg = base_config and now = 120034
      and g = no_draws, THEN conjunct2, THEN conjunct2, THEN conjunct2, THEN conjunct2,
      THEN conjunct2, THEN conjunct1] s0 s1
  have s3: "in_seal (fst (tick base_config sealed_pet 120034 no_draws))"
    "state (fst (tick base_config sealed_pet 120034 no_draws)) = SEAL_MODE"
    by blast+
  have qi: "quiet_inputs = [(10, 0, False, 120034), (12, 0, True, 120067), (12, 0, False, 120100)]"
    by (simp add: quiet_inputs_def)
  note qr = quiet_run
  from seal_lifecycle[where p = sealed_pet and cfg = base_config and g = no_draws
      and inps = quiet_inputs, THEN conjunct2, THEN conjunct2, THEN conjunct2, THEN conjunct2,
      THEN conjunct2, THEN conjunct2, THEN conjunct2, THEN conjunct1] s0 qr(1) s1
  have r1: "in_seal (fst (run base_config sealed_pet no_draws quiet_inputs))"
    "seal_should_appear (fst (run base_config sealed_pet no_draws quiet_inputs))
       = seal_should_appear sealed_pet"
    "\<not> seal_should_disappear (fst (run base_config sealed_pet no_draws quiet_inputs))"
    by simp_all
  have mv: "hypot (30 - last_mouse_x (fst (run base_config sealed_pet no_draws quiet_inputs)))
        (0 - last_mouse_y (fst (run base_config sealed_pet no_draws quiet_inputs)))
       > MOUSE_MOVE_THRESHOLD base_config"
    by (simp add: qr) (simp add: base_config_def hypot_x_0)
  from seal_lifecycle[where p = sealed_pet and cfg = base_config and g = no_draws
      and inps = quiet_inputs and mx = 30 and my = 0 and now = 120133, THEN conjunct2,
      THEN conjunct2, THEN conjunct2, THEN conjunct2, THEN conjunct2, THEN conjunct2,
      THEN conjunct2, THEN conjunct2] s0 qr(1) mv
  have r2: "state (fst (run base_config sealed_pet no_draws
        (quiet_inputs @ [(30, 0, False, 120133)]))) = CHASING"
    "\<not> seal_active
        (fst (run base_config sealed_pet no_draws (quiet_inputs @ [(30, 0, False, 120133)])))"
    "seal_should_disappear
        (fst (run base_config sealed_pet no_draws (quiet_inputs @ [(30, 0, False, 120133)])))"
    by blast+
  have m: "hypot (30 - last_mouse_x sealed_pet) (0 - last_mouse_y sealed_pet)
       > MOUSE_MOVE_THRESHOLD base_config"
    by (simp add: s) (simp add: idle_eval)
  let ?r = "update_mouse base_config sealed_pet 30 0 False 120034"
  from seal_lifecycle[where p = sealed_pet and cfg = base_config and mx = 30 and my = 0
      and b = False and now = 120034, THEN conjunct2, THEN conjunct2, THEN conjunct1] s1 m
  have r: "seal_should_disappear ?r" "\<not> seal_active ?r" "state ?r = SEAL_MODE"
    by simp_all
  have rp: "\<not> mouse_pressed ?r"
    by (simp add: update_mouse_def Let_def)
  from seal_lifecycle[where p = ?r and cfg = base_config and mx = 60 and my = 0
      and b = False and now = 120067, THEN conjunct2, THEN conjunct2, THEN conjunct2,
      THEN conjunct1] r
  have r3: "seal_should_disappear (update_mouse base_config ?r 60 0 False 120067)
       = seal_should_disappear ?r"
    by blast
  from seal_lifecycle[where p = ?r and cfg = base_config and now = 120034 and g = no_draws,
      THEN conjunct2, THEN conjunct2, THEN conjunct2, THEN conjunct2, THEN conjunct1] r rp
  have "tick base_config ?r 120034 no_draws = (?r\<lparr>state := CHASING\<rparr>, no_draws)"
    by blast
  then have c: "state (fst (pet_step base_config sealed_pet no_draws (30, 0, False, 120034)))
      = CHASING"
    by (simp add: pet_step_def)
  from q(1,4,5) s1(1,2,3) s0 s2 s3 qi qr(1,4,5) r1 mv r2 m r r3 c show ?thesis
    by simp
qed

section \<open>The idle-animation ramp\<close>

lemma idle_gif_loop_GIF_IDLE:
  "idle_gif_loop r p2 po 0 GIF_IDLE
   = (if r < po then Some (IdleGif 1)
      else if r < po + p2 then Some (IdleGif 2)
      else if r < po + p2 + po then Some (IdleGif 3)
      else if r < po + p2 + po + po then Some (IdleGif 4)
      else if r < po + p2 + po + po + po then Some (IdleGif 5)
      else None)"
  by (simp add: GIF_IDLE_def GIF_IDLE2_def Let_def)

lemma idle2_prob_eq:
  "idle2_prob t = 1 / 5 + min ((t - 30000) / 60000) 1 * (4 / 5)"
  by (simp add: idle2_prob_def GIF_IDLE_def MOUSE_IDLE_T1_def IDLE2_RAMP_DURATION_def Let_def)

lemma other_prob_eq: "other_prob t = (1 - idle2_prob t) / 4"
  by (simp add: other_prob_def GIF_IDLE_def Let_def)

lemma idle2_prob_bounds:
  assumes "30000 \<le> t"
  shows "1 / 5 \<le> idle2_prob t \<and> idle2_prob t \<le> 1"
proof -
  have "0 \<le> min ((t - 30000) / 60000) 1" "min ((t - 30000) / 60000) 1 \<le> 1"
    using assms by simp_all
  then show ?thesis
    unfolding idle2_prob_eq by linarith
qed

lemma pick_idle_gif_special:
  assumes "real_of_int MOUSE_IDLE_T1 \<le> mouse_idle_time p" and "0 \<le> g 0" and "g 0 < 1"
  shows "(fst (pick_idle_gif p g) = GIF_IDLE2)
    = (other_prob (mouse_idle_time p) \<le> g 0
       \<and> g 0 < other_prob (mouse_idle_time p) + idle2_prob (mouse_idle_time p))"
proof -
  have t: "30000 \<le> mouse_idle_time p"
    using assms(1) by (simp add: MOUSE_IDLE_T1_def)
  have n: "GIF_IDLE \<noteq> []" "last GIF_IDLE = IdleGif 5"
    by (simp_all add: GIF_IDLE_def)
  have b: "0 \<le> other_prob (mouse_idle_time p)"
    using idle2_prob_bounds[OF t] unfolding other_prob_eq by simp
  have tot: "other_prob (mouse_idle_time p) + idle2_prob (mouse_idle_time p)
      + other_prob (mouse_idle_time p) + other_prob (mouse_idle_time p)
      + other_prob (mouse_idle_time p) = 1"
    unfolding other_prob_eq by (simp add: field_simps)
  show ?thesis
    using assms t b tot n(1)
    by (auto simp add: pick_idle_gif_def random_def idle_gif_loop_GIF_IDLE n GIF_IDLE2_def
        MOUSE_IDLE_T1_def)
qed

text \<open>
  Claim C8, as amended. After \<^verbatim>\<open>MOUSE_IDLE_T1\<close> one draw \<open>r\<close> of \<^verbatim>\<open>random.random()\<close>
  selects the special variant exactly when \<open>r\<close> lies in the interval from \<open>other_prob\<close>
  (included) to \<open>other_prob + idle2_prob\<close> (excluded), which lies inside the unit
  interval and has the length \<open>idle2_prob\<close>: that length is the probability of the
  special variant. It is \<open>1/n + ramp * (1 - 1/n)\<close> with
  \<open>ramp = min ((idle - T1) / RAMP_DURATION) 1\<close>, the other variants share the rest
  evenly, and with \<open>n = 5\<close>, \<open>T1 = 30000\<close>, \<open>RAMP_DURATION = 60000\<close> it is \<open>1/5\<close> at
  30000 ms, \<open>3/5\<close> at 60000 ms and \<open>1\<close> at 90000 ms.
\<close>

theorem idle_ramp:
  "(real_of_int MOUSE_IDLE_T1 \<le> mouse_idle_time p \<and> 0 \<le> g 0 \<and> g 0 < 1 \<longrightarrow>
      (fst (pick_idle_gif p g) = GIF_IDLE2)
      = (other_prob (mouse_idle_time p) \<le> g 0
         \<and> g 0 < other_prob (mouse_idle_time p) + idle2_prob (mouse_idle_time p)))
   \<and> (real_of_int MOUSE_IDLE_T1 \<le> t \<longrightarrow>
        0 \<le> other_prob t \<and> other_prob t + idle2_prob t \<le> 1)
   \<and> idle2_prob t = 1 / real (length GIF_IDLE)
        + min ((t - real_of_int MOUSE_IDLE_T1) / real_of_int IDLE2_RAMP_DURATION) 1
          * (1 - 1 / real (length GIF_IDLE))
   \<and> other_prob t = (1 - idle2_prob t) / (real (length GIF_IDLE) - 1)
   \<and> length GIF_IDLE = 5 \<and> MOUSE_IDLE_T1 = 30000 \<and> IDLE2_RAMP_DURATION = 60000
   \<and> idle2_prob 30000 = 1 / 5 \<and> idle2_prob 60000 = 3 / 5 \<and> idle2_prob 90000 = 1"
proof -
  have a: "real_of_int MOUSE_IDLE_T1 \<le> t \<longrightarrow>
        0 \<le> other_prob t \<and> other_prob t + idle2_prob t \<le> 1"
  proof
    assume "real_of_int MOUSE_IDLE_T1 \<le> t"
    then have "30000 \<le> t" by (simp add: MOUSE_IDLE_T1_def)
    from idle2_prob_bounds[OF this] show "0 \<le> other_prob t \<and> other_prob t + idle2_prob t \<le> 1"
      unfolding other_prob_eq by (simp add: field_simps)
  qed
  have b: "idle2_prob t = 1 / real (length GIF_IDLE)
        + min ((t - real_of_int MOUSE_IDLE_T1) / real_of_int IDLE2_RAMP_DURATION) 1
          * (1 - 1 / real (length GIF_IDLE))"
    by (simp add: idle2_prob_def Let_def)
  have c: "other_prob t = (1 - idle2_prob t) / (real (length GIF_IDLE) - 1)"
    by (simp add: other_prob_eq GIF_IDLE_def)
  have d: "length GIF_IDLE = 5" "MOUSE_IDLE_T1 = 30000" "IDLE2_RAMP_DURATION = 60000"
    "idle2_prob 30000 = 1 / 5" "idle2_prob 60000 = 3 / 5" "idle2_prob 90000 = 1"
    by (simp_all add: GIF_IDLE_def MOUSE_IDLE_T1_def IDLE2_RAMP_DURATION_def idle2_prob_eq)
  from pick_idle_gif_special[of p g] a b c d show ?thesis
    by blast
qed

lemma idle_for_60000:
  "real_of_int MOUSE_IDLE_T1 \<le> mouse_idle_time (idle_for 60000)"
  "mouse_idle_time (idle_for 60000) = 60000"
  "idle2_prob 60000 = 3 / 5" "other_prob 60000 = 1 / 10"
  by (simp_all add: idle_for_def MOUSE_IDLE_T1_def idle2_prob_eq other_prob_eq)

text \<open>
  At an idle time of 60000 ms the probability of the special variant is \<open>3/5\<close>, not
  \<open>1/2\<close>: the draws \<open>1/10\<close> and \<open>13/20\<close> both select it.
\<close>

theorem idle_ramp_counterexample:
  "idle2_prob 60000 = 3 / 5 \<and> idle2_prob 60000 \<noteq> 1 / 2 \<and> other_prob 60000 = 1 / 10
   \<and> fst (pick_idle_gif (idle_for 60000) (draws_of (1 / 10))) = GIF_IDLE2
   \<and> fst (pick_idle_gif (idle_for 60000) (draws_of (13 / 20))) = GIF_IDLE2"
proof -
  have a: "fst (pick_idle_gif (idle_for 60000) (draws_of (1 / 10))) = GIF_IDLE2"
    using pick_idle_gif_special[OF idle_for_60000(1), of "draws_of (1 / 10)"]
    by (simp add: idle_for_60000 draws_of_def)
  have b: "fst (pick_idle_gif (idle_for 60000) (draws_of (13 / 20))) = GIF_IDLE2"
    using pick_idle_gif_special[OF idle_for_60000(1), of "draws_of (13 / 20)"]
    by (simp add: idle_for_60000 draws_of_def)
  from a b show ?thesis by (simp add: idle_for_60000)
qed

theorem idle_ramp_witness:
  "real_of_int MOUSE_IDLE_T1 \<le> mouse_idle_time (idle_for 60000)
   \<and> 0 \<le> draws_of (1 / 2) 0 \<and> draws_of (1 / 2) 0 < 1
   \<and> other_prob (mouse_idle_time (idle_for 60000)) = 1 / 10
   \<and> idle2_prob (mouse_idle_time (idle_for 60000)) = 3 / 5
   \<and> fst (pick_idle_gif (idle_for 60000) (draws_of (1 / 2))) = GIF_IDLE2
   \<and> real_of_int MOUSE_IDLE_T1 \<le> 60000
   \<and> 0 \<le> other_prob 60000 \<and> other_prob 60000 + idle2_prob 60000 \<le> 1"
proof -
  have d: "0 \<le> draws_of (1 / 2) 0" "draws_of (1 / 2) 0 < 1"
    by (simp_all add: draws_of_def)
  have t: "real_of_int MOUSE_IDLE_T1 \<le> 60000"
    by (simp add: MOUSE_IDLE_T1_def)
  note h = idle_ramp[where p = "idle_for 60000" and g = "draws_of (1 / 2)" and t = 60000]
  from h[THEN conjunct1] idle_for_60000(1) d
  have "(fst (pick_idle_gif (idle_for 60000) (draws_of (1 / 2))) = GIF_IDLE2)
      = (other_prob (mouse_idle_time (idle_for 60000)) \<le> draws_of (1 / 2) 0
         \<and> draws_of (1 / 2) 0
           < other_prob (mouse_idle_time (idle_for 60000))
             + idle2_prob (mouse_idle_time (idle_for 60000)))"
    by blast
  then have 1: "fst (pick_idle_gif (idle_for 60000) (draws_of (1 / 2))) = GIF_IDLE2"
    by (simp add: idle_for_60000 draws_of_def)
  from h[THEN conjunct2, THEN conjunct1] t
  have 2: "0 \<le> other_prob 60000 \<and> other_prob 60000 + idle2_prob 60000 \<le> 1"
    by blast
  from d t 1 2 idle_for_60000 show ?thesis by simp
qed

end
